theory Spec2Isabelle
  imports Complex_Main "HOL-Library.Sublist" "HOL-Library.Char_ord" "HOL-Library.List_Lexorder"
begin

section \<open>JavaScript values, strings and regular expressions\<close>

text \<open>
  Strings are lists of 8-bit code units (the Latin-1 range of JavaScript's UTF-16
  strings). A parameter value is \<open>unknown\<close> in the source; the model keeps the JSON
  shapes, \<open>undefined\<close>, \<open>JFunction n\<close>, a native function named \<open>n\<close>, and
  \<open>JCircular\<close>: a plain object that contains a reference to itself, on which
  \<open>JSON.stringify\<close> throws a TypeError and \<open>String\<close> gives \<open>[object Object]\<close>.
  Numbers are restricted to integers.
\<close>

datatype jsvalue =
    JUndefined
  | JNull
  | JBool bool
  | JNumber int
  | JString string
  | JArray "jsvalue list"
  | JObject "(string \<times> jsvalue) list"
  | JFunction string
  | JCircular

datatype js_error = TypeError | SyntaxError

type_synonym params = "(string \<times> jsvalue) list"

definition dq :: char where
  "dq = CHR 0x22"

definition bslash :: char where
  "bslash = CHR 0x5C"

definition upper_chars :: string where
  "upper_chars = ''ABCDEFGHIJKLMNOPQRSTUVWXYZ'' @
     [CHR 0xC0, CHR 0xC1, CHR 0xC2, CHR 0xC3, CHR 0xC4, CHR 0xC5, CHR 0xC6, CHR 0xC7,
      CHR 0xC8, CHR 0xC9, CHR 0xCA, CHR 0xCB, CHR 0xCC, CHR 0xCD, CHR 0xCE, CHR 0xCF,
      CHR 0xD0, CHR 0xD1, CHR 0xD2, CHR 0xD3, CHR 0xD4, CHR 0xD5, CHR 0xD6,
      CHR 0xD8, CHR 0xD9, CHR 0xDA, CHR 0xDB, CHR 0xDC, CHR 0xDD, CHR 0xDE]"

definition lower_chars :: string where
  "lower_chars = ''abcdefghijklmnopqrstuvwxyz'' @
     [CHR 0xE0, CHR 0xE1, CHR 0xE2, CHR 0xE3, CHR 0xE4, CHR 0xE5, CHR 0xE6, CHR 0xE7,
      CHR 0xE8, CHR 0xE9, CHR 0xEA, CHR 0xEB, CHR 0xEC, CHR 0xED, CHR 0xEE, CHR 0xEF,
      CHR 0xF0, CHR 0xF1, CHR 0xF2, CHR 0xF3, CHR 0xF4, CHR 0xF5, CHR 0xF6,
      CHR 0xF8, CHR 0xF9, CHR 0xFA, CHR 0xFB, CHR 0xFC, CHR 0xFD, CHR 0xFE]"

definition lower_char :: "char \<Rightarrow> char" where
  "lower_char c = (case map_of (zip upper_chars lower_chars) c of Some l \<Rightarrow> l | None \<Rightarrow> c)"

definition toLowerCase :: "string \<Rightarrow> string" where
  "toLowerCase s = map lower_char s"

text \<open>White space and line terminators of ECMAScript that fit in 8 bits.\<close>

definition js_space_chars :: string where
  "js_space_chars = [CHR 0x09, CHR 0x0A, CHR 0x0B, CHR 0x0C, CHR 0x0D, CHR 0x20, CHR 0xA0]"

definition is_js_space :: "char \<Rightarrow> bool" where
  "is_js_space c = (c \<in> set js_space_chars)"

definition trim :: "string \<Rightarrow> string" where
  "trim s = rev (dropWhile is_js_space (rev (dropWhile is_js_space s)))"

fun join :: "string \<Rightarrow> string list \<Rightarrow> string" where
  "join sep [] = []"
| "join sep [x] = x"
| "join sep (x # y # ys) = x @ sep @ join sep (y # ys)"

text \<open>\<open>String.prototype.includes\<close>: the pattern occurs as a contiguous substring.\<close>

fun str_includes :: "string \<Rightarrow> string \<Rightarrow> bool" where
  "str_includes [] p = (p = [])"
| "str_includes (c # cs) p = (prefix p (c # cs) \<or> str_includes cs p)"

subsection \<open>JSON.stringify\<close>

definition digit_char :: "nat \<Rightarrow> char" where
  "digit_char d = ''0123456789abcdef'' ! d"

fun string_of_nat :: "nat \<Rightarrow> string" where
  "string_of_nat n =
     (if n < 10 then [digit_char n]
      else string_of_nat (n div 10) @ [digit_char (n mod 10)])"

definition string_of_int :: "int \<Rightarrow> string" where
  "string_of_int i = (if i < 0 then CHR ''-'' # string_of_nat (nat (- i)) else string_of_nat (nat i))"

text \<open>Control characters below 0x20 and their JSON escapes.\<close>

definition control_escapes :: "(char \<times> string) list" where
  "control_escapes =
     [(CHR 0x08, [bslash, CHR ''b'']), (CHR 0x09, [bslash, CHR ''t'']),
      (CHR 0x0A, [bslash, CHR ''n'']), (CHR 0x0C, [bslash, CHR ''f'']),
      (CHR 0x0D, [bslash, CHR ''r''])] @
     map (\<lambda>(c, h). (c, [bslash, CHR ''u'', CHR ''0'', CHR ''0''] @ h))
       [(CHR 0x00, ''00''), (CHR 0x01, ''01''), (CHR 0x02, ''02''), (CHR 0x03, ''03''),
        (CHR 0x04, ''04''), (CHR 0x05, ''05''), (CHR 0x06, ''06''), (CHR 0x07, ''07''),
        (CHR 0x0B, ''0b''), (CHR 0x0E, ''0e''), (CHR 0x0F, ''0f''),
        (CHR 0x10, ''10''), (CHR 0x11, ''11''), (CHR 0x12, ''12''), (CHR 0x13, ''13''),
        (CHR 0x14, ''14''), (CHR 0x15, ''15''), (CHR 0x16, ''16''), (CHR 0x17, ''17''),
        (CHR 0x18, ''18''), (CHR 0x19, ''19''), (CHR 0x1A, ''1a''), (CHR 0x1B, ''1b''),
        (CHR 0x1C, ''1c''), (CHR 0x1D, ''1d''), (CHR 0x1E, ''1e''), (CHR 0x1F, ''1f'')]"

definition json_escape_char :: "char \<Rightarrow> string" where
  "json_escape_char c =
     (if c = dq then [bslash, dq]
      else if c = bslash then [bslash, bslash]
      else (case map_of control_escapes c of Some e \<Rightarrow> e | None \<Rightarrow> [c]))"

definition json_quote :: "string \<Rightarrow> string" where
  "json_quote s = [dq] @ concat (map json_escape_char s) @ [dq]"

text \<open>Sequencing of results that may be an exception: the first exception wins.\<close>

fun collect :: "(js_error + 'a) list \<Rightarrow> js_error + 'a list" where
  "collect [] = Inr []"
| "collect (Inl e # rs) = Inl e"
| "collect (Inr x # rs) = (case collect rs of Inl e \<Rightarrow> Inl e | Inr xs \<Rightarrow> Inr (x # xs))"

definition array_text :: "string option list \<Rightarrow> string" where
  "array_text ps =
     ''['' @ join '','' (map (\<lambda>p. case p of None \<Rightarrow> ''null'' | Some s \<Rightarrow> s) ps) @ '']''"

definition object_text :: "(string \<times> string option) list \<Rightarrow> string" where
  "object_text kps =
     ''{'' @ join '',''
        (concat (map (\<lambda>(k, p). case p of None \<Rightarrow> [] | Some s \<Rightarrow> [json_quote k @ '':'' @ s]) kps))
      @ ''}''"

text \<open>
  \<open>JSON.stringify v\<close> with no indentation: \<open>Inr None\<close> is the result \<open>undefined\<close>,
  \<open>Inl TypeError\<close> the exception on a circular structure. Inside an array
  \<open>undefined\<close> is written \<open>null\<close>; inside an object the property is left out.
\<close>

fun JSON_stringify :: "jsvalue \<Rightarrow> js_error + string option" where
  "JSON_stringify JUndefined = Inr None"
| "JSON_stringify JNull = Inr (Some ''null'')"
| "JSON_stringify (JBool b) = Inr (Some (if b then ''true'' else ''false''))"
| "JSON_stringify (JNumber n) = Inr (Some (string_of_int n))"
| "JSON_stringify (JString s) = Inr (Some (json_quote s))"
| "JSON_stringify (JArray vs) =
     (case collect (map JSON_stringify vs) of
        Inl e \<Rightarrow> Inl e
      | Inr ps \<Rightarrow> Inr (Some (array_text ps)))"
| "JSON_stringify (JObject kvs) =
     (case collect (map (\<lambda>kv. JSON_stringify (snd kv)) kvs) of
        Inl e \<Rightarrow> Inl e
      | Inr ps \<Rightarrow> Inr (Some (object_text (zip (map fst kvs) ps))))"
| "JSON_stringify (JFunction n) = Inr None"
| "JSON_stringify JCircular = Inl TypeError"

text \<open>\<open>String(v)\<close>: the conversion used where \<open>JSON.stringify\<close> has thrown.\<close>

fun String_of :: "jsvalue \<Rightarrow> string" where
  "String_of JUndefined = ''undefined''"
| "String_of JNull = ''null''"
| "String_of (JBool b) = (if b then ''true'' else ''false'')"
| "String_of (JNumber n) = string_of_int n"
| "String_of (JString s) = s"
| "String_of (JArray vs) =
     join '','' (map (\<lambda>v. if v = JUndefined \<or> v = JNull then [] else String_of v) vs)"
| "String_of (JObject kvs) = ''[object Object]''"
| "String_of (JFunction n) = ''function '' @ n @ ''() { [native code] }''"
| "String_of JCircular = ''[object Object]''"

text \<open>
  A plain object inherits the members of \<open>Object.prototype\<close>: under these names a
  lookup on an object that has no such entry of its own finds a native function, and
  under \<open>__proto__\<close> the prototype object, which has no enumerable entries.
\<close>

definition Object_prototype_members :: "string list" where
  "Object_prototype_members =
     [''constructor'', ''__defineGetter__'', ''__defineSetter__'', ''hasOwnProperty'',
      ''__lookupGetter__'', ''__lookupSetter__'', ''isPrototypeOf'', ''propertyIsEnumerable'',
      ''toString'', ''valueOf'', ''__proto__'', ''toLocaleString'']"

definition inherited_member :: "string \<Rightarrow> jsvalue" where
  "inherited_member k =
     (if k = ''__proto__'' then JObject []
      else if k = ''constructor'' then JFunction ''Object''
      else if k \<in> set Object_prototype_members then JFunction k
      else JUndefined)"

text \<open>
  Property lookup \<open>obj[key]\<close> on a plain object (an association list with distinct
  keys, in insertion order): an own entry, else the inherited member, else
  \<open>undefined\<close>.
\<close>

definition get_param :: "params \<Rightarrow> string \<Rightarrow> jsvalue" where
  "get_param ps k = (case map_of ps k of None \<Rightarrow> inherited_member k | Some v \<Rightarrow> v)"

subsection \<open>Regular expressions\<close>

text \<open>
  The regular expressions of the source are literals built from character classes,
  sequence, alternation and repetition. \<open>RegExp.prototype.test\<close> asks whether some
  substring is in the language, which Brzozowski derivatives decide. With the flag
  \<open>i\<close> characters are compared after case folding.
\<close>

datatype cclass = OneOf string | NoneOf string

datatype regex =
    Zero
  | Eps
  | Atom cclass
  | Seq regex regex
  | Alt regex regex
  | Star regex

definition in_class :: "bool \<Rightarrow> cclass \<Rightarrow> char \<Rightarrow> bool" where
  "in_class ignoreCase cls c =
     (let f = (if ignoreCase then lower_char else (\<lambda>x. x))
      in case cls of
           OneOf cs \<Rightarrow> f c \<in> set (map f cs)
         | NoneOf cs \<Rightarrow> f c \<notin> set (map f cs))"

fun nullable :: "regex \<Rightarrow> bool" where
  "nullable Zero = False"
| "nullable Eps = True"
| "nullable (Atom cls) = False"
| "nullable (Seq r s) = (nullable r \<and> nullable s)"
| "nullable (Alt r s) = (nullable r \<or> nullable s)"
| "nullable (Star r) = True"

fun deriv :: "bool \<Rightarrow> char \<Rightarrow> regex \<Rightarrow> regex" where
  "deriv i c Zero = Zero"
| "deriv i c Eps = Zero"
| "deriv i c (Atom cls) = (if in_class i cls c then Eps else Zero)"
| "deriv i c (Seq r s) =
     (if nullable r then Alt (Seq (deriv i c r) s) (deriv i c s) else Seq (deriv i c r) s)"
| "deriv i c (Alt r s) = Alt (deriv i c r) (deriv i c s)"
| "deriv i c (Star r) = Seq (deriv i c r) (Star r)"

text \<open>The whole string is in the language (a pattern anchored with \<open>^\<close> and \<open>$\<close>).\<close>

fun full_match :: "bool \<Rightarrow> regex \<Rightarrow> string \<Rightarrow> bool" where
  "full_match i r [] = nullable r"
| "full_match i r (c # cs) = full_match i (deriv i c r) cs"

text \<open>Some prefix of the string is in the language.\<close>

fun prefix_match :: "bool \<Rightarrow> regex \<Rightarrow> string \<Rightarrow> bool" where
  "prefix_match i r [] = nullable r"
| "prefix_match i r (c # cs) = (nullable r \<or> prefix_match i (deriv i c r) cs)"

text \<open>\<open>re.test(s)\<close> for an unanchored pattern: a match starts at some position.\<close>

fun regex_test :: "bool \<Rightarrow> regex \<Rightarrow> string \<Rightarrow> bool" where
  "regex_test i r [] = nullable r"
| "regex_test i r (c # cs) = (prefix_match i r (c # cs) \<or> regex_test i r cs)"

definition lit :: "string \<Rightarrow> regex" where
  "lit s = foldr (\<lambda>c r. Seq (Atom (OneOf [c])) r) s Eps"

definition alts :: "regex list \<Rightarrow> regex" where
  "alts rs = foldr Alt rs Zero"

definition plus :: "regex \<Rightarrow> regex" where
  "plus r = Seq r (Star r)"

definition seqs :: "regex list \<Rightarrow> regex" where
  "seqs rs = foldr Seq rs Eps"

text \<open>\<open>\s\<close>, and \<open>.\<close> (any character but a line terminator).\<close>

definition space_class :: regex where
  "space_class = Atom (OneOf js_space_chars)"

definition dot_class :: regex where
  "dot_class = Atom (NoneOf [CHR 0x0A, CHR 0x0D])"

section \<open>Parts of the host that the source imports but does not define\<close>

text \<open>
  \<open>normalizeToolName\<close> is imported from \<open>agents/tool-policy\<close>, not a guardian module;
  \<open>new RegExp(pattern, "i")\<close> on a configured pattern, \<open>JSON.parse\<close> and the
  conversion of numbers to text are built into the language. They are parameters of
  the model: \<open>new_RegExp_i p = None\<close> is the SyntaxError of an invalid pattern and
  \<open>Some t\<close> the \<open>test\<close> method of the compiled pattern; \<open>JSON_parse s = None\<close> is
  the SyntaxError of \<open>JSON.parse\<close> (a parsed object has distinct keys);
  \<open>locale_le a b\<close> is \<open>a.localeCompare(b) <= 0\<close>. Costs are rational numbers; the
  rounding of floating-point addition is not modelled.
\<close>

record host =
  normalizeToolName :: "string \<Rightarrow> string"
  new_RegExp_i :: "string \<Rightarrow> (string \<Rightarrow> bool) option"
  JSON_parse :: "string \<Rightarrow> jsvalue option"
  toFixed4 :: "rat \<Rightarrow> string"
  number_text :: "rat \<Rightarrow> string"
  locale_le :: "string \<Rightarrow> string \<Rightarrow> bool"

section \<open>Tier 1: risk classification and rules (rules.ts)\<close>

datatype GuardianRiskLevel = Low | Medium | High | Critical

text \<open>
  A variable of type \<open>GuardianRiskLevel\<close> that is filled from \<open>TOOL_RISK_DEFAULTS\<close>
  can hold, at run time, a value that is no risk level: the table is a plain object,
  and indexing it with the name of a member of \<open>Object.prototype\<close> yields that
  inherited member.
\<close>

datatype risk_value = Level GuardianRiskLevel | NotALevel jsvalue

datatype GuardianTrustLevel = Owner | Allowed | Unknown | Subagent

datatype GuardianRuleAction = Allow | Deny | Escalate

datatype GuardianDecision = AllowOnce | AllowSession | AllowAlways | DenyDecision

record GuardianRule =
  rule_id :: "string option"
  rule_tool :: "string option"
  rule_paramMatches :: "(string \<times> string) list option"
  rule_minTrust :: "GuardianTrustLevel option"
  rule_riskLevel :: "GuardianRiskLevel option"
  rule_action :: "GuardianRuleAction option"
  rule_label :: "string option"

record GuardianRuleResult =
  decision :: GuardianRuleAction
  riskLevel :: risk_value
  trustLevel :: GuardianTrustLevel
  reason :: "string option"
  ruleLabel :: "string option"

text \<open>The own entries of the table.\<close>

definition TOOL_RISK_DEFAULTS :: "(string \<times> GuardianRiskLevel) list" where
  "TOOL_RISK_DEFAULTS =
     [(''read'', Low), (''memory_search'', Low), (''memory_get'', Low),
      (''web_search'', Low), (''web_fetch'', Low), (''session_status'', Low),
      (''sessions_list'', Low), (''sessions_history'', Low), (''agents_list'', Low),
      (''image'', Low),
      (''write'', Medium), (''edit'', Medium), (''apply_patch'', Medium),
      (''message'', Medium), (''browser'', Medium), (''canvas'', Medium),
      (''cron'', Medium), (''nodes'', Medium),
      (''exec'', High), (''process'', High), (''sessions_send'', High),
      (''sessions_spawn'', High),
      (''gateway'', Critical), (''whatsapp_login'', Critical)]"

datatype tool_matcher = ToolName string | ToolPattern regex bool

record ParamEscalation =
  esc_tool :: tool_matcher
  paramKey :: string
  pattern :: regex
  pattern_ignoreCase :: bool
  escalateTo :: GuardianRiskLevel
  esc_label :: string

definition sensitive_path_pattern :: regex where
  "sensitive_path_pattern =
     alts [lit ''config'', lit ''.env'', lit ''secret'', lit ''credential'', lit ''.ssh'',
           lit ''.gnupg'']"

definition destructive_command_pattern :: regex where
  "destructive_command_pattern =
     alts [seqs [lit ''rm'', plus space_class, lit ''-rf''],
           seqs [lit ''DROP'', plus space_class, lit ''TABLE''],
           seqs [lit ''DELETE'', plus space_class, lit ''FROM''],
           seqs [lit ''TRUNCATE'', plus space_class, lit ''TABLE''],
           lit ''mkfs'',
           seqs [lit ''dd'', plus space_class, lit ''if=''],
           seqs [lit ''format'', plus space_class,
                 Atom (OneOf ''abcdefghijklmnopqrstuvwxyz''), lit '':''],
           lit ''shutdown'',
           lit ''reboot'']"

definition PARAM_ESCALATIONS :: "ParamEscalation list" where
  "PARAM_ESCALATIONS =
     [\<lparr>esc_tool = ToolName ''write'', paramKey = ''path'', pattern = sensitive_path_pattern,
       pattern_ignoreCase = True, escalateTo = Critical, esc_label = ''write to sensitive path''\<rparr>,
      \<lparr>esc_tool = ToolName ''edit'', paramKey = ''path'', pattern = sensitive_path_pattern,
       pattern_ignoreCase = True, escalateTo = Critical, esc_label = ''edit sensitive path''\<rparr>,
      \<lparr>esc_tool = ToolName ''exec'', paramKey = ''command'',
       pattern = destructive_command_pattern,
       pattern_ignoreCase = True, escalateTo = Critical, esc_label = ''destructive command''\<rparr>,
      \<lparr>esc_tool = ToolName ''message'', paramKey = ''action'', pattern = lit ''broadcast'',
       pattern_ignoreCase = True, escalateTo = Critical, esc_label = ''broadcast message''\<rparr>]"

fun RISK_ORDER :: "GuardianRiskLevel \<Rightarrow> nat" where
  "RISK_ORDER Low = 0"
| "RISK_ORDER Medium = 1"
| "RISK_ORDER High = 2"
| "RISK_ORDER Critical = 3"

fun TRUST_ORDER :: "GuardianTrustLevel \<Rightarrow> nat" where
  "TRUST_ORDER Owner = 3"
| "TRUST_ORDER Allowed = 2"
| "TRUST_ORDER Unknown = 1"
| "TRUST_ORDER Subagent = 0"

text \<open>
  \<open>RISK_ORDER[v]\<close> for a run-time value: the rank of a level, \<open>undefined\<close> (\<open>None\<close>)
  for anything else, whose string is no key of \<open>RISK_ORDER\<close>. A comparison \<open>>=\<close> with
  \<open>undefined\<close> on either side is false.
\<close>

definition RISK_ORDER_at :: "risk_value \<Rightarrow> nat option" where
  "RISK_ORDER_at v = (case v of Level l \<Rightarrow> Some (RISK_ORDER l) | NotALevel x \<Rightarrow> None)"

definition js_ge :: "nat option \<Rightarrow> nat option \<Rightarrow> bool" where
  "js_ge a b = (case a of None \<Rightarrow> False
                | Some x \<Rightarrow> (case b of None \<Rightarrow> False | Some y \<Rightarrow> x \<ge> y))"

definition riskAtLeast :: "risk_value \<Rightarrow> risk_value \<Rightarrow> bool" where
  "riskAtLeast level threshold = js_ge (RISK_ORDER_at level) (RISK_ORDER_at threshold)"

definition maxRisk :: "risk_value \<Rightarrow> risk_value \<Rightarrow> risk_value" where
  "maxRisk a b = (if js_ge (RISK_ORDER_at a) (RISK_ORDER_at b) then a else b)"

definition trustAtLeast :: "GuardianTrustLevel \<Rightarrow> GuardianTrustLevel \<Rightarrow> bool" where
  "trustAtLeast level min_level = (TRUST_ORDER level \<ge> TRUST_ORDER min_level)"

text \<open>An optional boolean flag is truthy only when it is present and true.\<close>

definition truthy_flag :: "bool option \<Rightarrow> bool" where
  "truthy_flag b = (b = Some True)"

definition resolveTrustLevel :: "bool option \<Rightarrow> bool option \<Rightarrow> bool option \<Rightarrow> GuardianTrustLevel" where
  "resolveTrustLevel senderIsOwner isSubagent isAllowed =
     (if truthy_flag senderIsOwner then Owner
      else if truthy_flag isSubagent then Subagent
      else if truthy_flag isAllowed then Allowed
      else Unknown)"

text \<open>
  \<open>TOOL_RISK_DEFAULTS[toolName] ?? "medium"\<close>: an own entry, else an inherited member
  (never \<open>null\<close> or \<open>undefined\<close>, so the default does not apply), else the default.
\<close>

definition getBaseRisk :: "string \<Rightarrow> risk_value" where
  "getBaseRisk toolName =
     (case map_of TOOL_RISK_DEFAULTS toolName of
        Some r \<Rightarrow> Level r
      | None \<Rightarrow>
          (case inherited_member toolName of
             JUndefined \<Rightarrow> Level Medium
           | member \<Rightarrow> NotALevel member))"

text \<open>
  \<open>typeof v === "string" ? v : JSON.stringify(v)\<close>. The call of \<open>JSON.stringify\<close> is
  not inside a \<open>try\<close> in \<open>checkParamEscalations\<close> and \<open>matchRule\<close>, so its exception
  is the exception of the caller.
\<close>

definition param_text :: "jsvalue \<Rightarrow> js_error + string option" where
  "param_text v = (case v of JString s \<Rightarrow> Inr (Some s) | _ \<Rightarrow> JSON_stringify v)"

text \<open>The argument of \<open>test\<close> is converted to a string: \<open>undefined\<close> reads \<open>undefined\<close>.\<close>

definition to_str :: "string option \<Rightarrow> string" where
  "to_str s = (case s of None \<Rightarrow> ''undefined'' | Some t \<Rightarrow> t)"

definition tool_matches :: "tool_matcher \<Rightarrow> string \<Rightarrow> bool" where
  "tool_matches m toolName =
     (case m of ToolName t \<Rightarrow> t = toolName | ToolPattern r i \<Rightarrow> regex_test i r toolName)"

fun scanEscalations ::
  "ParamEscalation list \<Rightarrow> string \<Rightarrow> params \<Rightarrow> js_error + (GuardianRiskLevel \<times> string) option" where
  "scanEscalations [] toolName toolParams = Inr None"
| "scanEscalations (esc # rest) toolName toolParams =
     (if \<not> tool_matches (esc_tool esc) toolName then scanEscalations rest toolName toolParams
      else
        let paramValue = get_param toolParams (paramKey esc)
        in if paramValue = JUndefined \<or> paramValue = JNull
           then scanEscalations rest toolName toolParams
           else (case param_text paramValue of
                   Inl e \<Rightarrow> Inl e
                 | Inr str \<Rightarrow>
                     if regex_test (pattern_ignoreCase esc) (pattern esc) (to_str str)
                     then Inr (Some (escalateTo esc, esc_label esc))
                     else scanEscalations rest toolName toolParams))"

definition checkParamEscalations ::
  "string \<Rightarrow> params \<Rightarrow> js_error + (GuardianRiskLevel \<times> string) option" where
  "checkParamEscalations toolName toolParams = scanEscalations PARAM_ESCALATIONS toolName toolParams"

subsection \<open>Glob and rule matching\<close>

text \<open>
  \<open>globMatch\<close> escapes every regular-expression metacharacter except \<open>*\<close> and \<open>?\<close>,
  turns \<open>*\<close> into \<open>.*\<close> and \<open>?\<close> into \<open>.\<close>, and anchors the pattern at both ends:
  each character of the glob becomes one item of a sequence.
\<close>

definition glob_regex :: "string \<Rightarrow> regex" where
  "glob_regex p =
     seqs (map (\<lambda>c. if c = CHR ''*'' then Star dot_class
                     else if c = CHR ''?'' then dot_class
                     else Atom (OneOf [c])) p)"

definition globMatch :: "string \<Rightarrow> string \<Rightarrow> bool" where
  "globMatch p v =
     (if p = ''*'' then True
      else if CHR ''*'' \<notin> set p \<and> CHR ''?'' \<notin> set p then p = v
      else full_match False (glob_regex p) v)"

text \<open>
  The loop over \<open>Object.entries(rule.paramMatches)\<close>. An invalid pattern makes the
  constructor throw inside the \<open>try\<close>; the handler falls back to \<open>str.includes\<close>.
\<close>

fun matchParams ::
  "host \<Rightarrow> (string \<times> string) list \<Rightarrow> params \<Rightarrow> js_error + bool" where
  "matchParams h [] toolParams = Inr True"
| "matchParams h ((key, pat) # rest) toolParams =
     (let paramValue = get_param toolParams key
      in if paramValue = JUndefined \<or> paramValue = JNull then Inr False
         else (case param_text paramValue of
                 Inl e \<Rightarrow> Inl e
               | Inr str \<Rightarrow>
                   (case new_RegExp_i h pat of
                      Some test \<Rightarrow>
                        if \<not> test (to_str str) then Inr False
                        else matchParams h rest toolParams
                    | None \<Rightarrow>
                        (case str of
                           None \<Rightarrow> Inl TypeError
                         | Some s \<Rightarrow>
                             if \<not> str_includes s pat then Inr False
                             else matchParams h rest toolParams))))"

definition matchRule ::
  "host \<Rightarrow> GuardianRule \<Rightarrow> string \<Rightarrow> params \<Rightarrow> GuardianTrustLevel \<Rightarrow> js_error + bool" where
  "matchRule h rule toolName toolParams trust =
     (if (case rule_tool rule of None \<Rightarrow> False | Some t \<Rightarrow> t \<noteq> [] \<and> \<not> globMatch t toolName)
      then Inr False
      else if (case rule_minTrust rule of None \<Rightarrow> False | Some m \<Rightarrow> \<not> trustAtLeast trust m)
      then Inr False
      else (case rule_paramMatches rule of
              None \<Rightarrow> Inr True
            | Some entries \<Rightarrow> matchParams h entries toolParams))"

subsection \<open>Configuration\<close>

datatype on_exceeded = OnDeny | OnEscalate

record GuardianBudgetConfig =
  budget_enabled :: "bool option"
  sessionLimit :: "rat option"
  dailyLimit :: "rat option"
  perToolCosts :: "(string \<times> rat) list option"
  defaultToolCost :: "rat option"
  onExceeded :: "on_exceeded option"

record AgentConfig =
  agent_approvalThreshold :: "GuardianRiskLevel option"
  agent_rules :: "GuardianRule list option"
  agent_constitution :: "string option"
  agent_budget :: "GuardianBudgetConfig option"

record GuardianConfig =
  enabled :: "bool option"
  approvalThreshold :: "GuardianRiskLevel option"
  timeoutMs :: "nat option"
  rules :: "GuardianRule list option"
  constitution :: "string option"
  constitutionPath :: "string option"
  budget :: "GuardianBudgetConfig option"
  agents :: "(string \<times> AgentConfig) list option"

text \<open>\<open>config.agents?.[agentId]\<close>.\<close>

definition agent_config :: "GuardianConfig \<Rightarrow> string \<Rightarrow> AgentConfig option" where
  "agent_config config agentId = (case agents config of None \<Rightarrow> None | Some as \<Rightarrow> map_of as agentId)"

text \<open>An optional string is truthy when it is present and not empty.\<close>

definition truthy_string :: "string option \<Rightarrow> bool" where
  "truthy_string s = (case s of None \<Rightarrow> False | Some t \<Rightarrow> t \<noteq> [])"

definition effectiveThreshold :: "GuardianConfig \<Rightarrow> string option \<Rightarrow> GuardianRiskLevel" where
  "effectiveThreshold config agentId =
     (case (if truthy_string agentId
            then (case agent_config config (the agentId) of
                    None \<Rightarrow> None | Some a \<Rightarrow> agent_approvalThreshold a)
            else None) of
        Some t \<Rightarrow> t
      | None \<Rightarrow> (case approvalThreshold config of Some t \<Rightarrow> t | None \<Rightarrow> High))"

text \<open>
  The object spread \<open>{...config.budget, ...agent.budget}\<close>: a field the agent's budget
  defines replaces the global one.
\<close>

definition or_else :: "'a option \<Rightarrow> 'a option \<Rightarrow> 'a option" where
  "or_else a b = (case a of Some x \<Rightarrow> Some x | None \<Rightarrow> b)"

definition spread_budget :: "GuardianBudgetConfig option \<Rightarrow> GuardianBudgetConfig \<Rightarrow> GuardianBudgetConfig" where
  "spread_budget g a =
     (case g of
        None \<Rightarrow> a
      | Some b \<Rightarrow>
          \<lparr>budget_enabled = or_else (budget_enabled a) (budget_enabled b),
           sessionLimit = or_else (sessionLimit a) (sessionLimit b),
           dailyLimit = or_else (dailyLimit a) (dailyLimit b),
           perToolCosts = or_else (perToolCosts a) (perToolCosts b),
           defaultToolCost = or_else (defaultToolCost a) (defaultToolCost b),
           onExceeded = or_else (onExceeded a) (onExceeded b)\<rparr>)"

definition effectiveBudget :: "GuardianConfig \<Rightarrow> string option \<Rightarrow> GuardianBudgetConfig option" where
  "effectiveBudget config agentId =
     (case (if truthy_string agentId
            then (case agent_config config (the agentId) of
                    None \<Rightarrow> None | Some a \<Rightarrow> agent_budget a)
            else None) of
        Some ab \<Rightarrow> Some (spread_budget (budget config) ab)
      | None \<Rightarrow> budget config)"

subsection \<open>evaluateRules\<close>

text \<open>
  A risk value inside a template literal: the name of a level, and \<open>String\<close> of
  anything else.
\<close>

definition level_name :: "GuardianRiskLevel \<Rightarrow> string" where
  "level_name r = (case r of Low \<Rightarrow> ''low'' | Medium \<Rightarrow> ''medium'' | High \<Rightarrow> ''high''
                   | Critical \<Rightarrow> ''critical'')"

definition risk_name :: "risk_value \<Rightarrow> string" where
  "risk_name v = (case v of Level l \<Rightarrow> level_name l | NotALevel x \<Rightarrow> String_of x)"

text \<open>The loop over the rules, agent rules first: the first rule that matches.\<close>

fun firstMatch ::
  "host \<Rightarrow> GuardianRule list \<Rightarrow> string \<Rightarrow> params \<Rightarrow> GuardianTrustLevel
   \<Rightarrow> js_error + GuardianRule option" where
  "firstMatch h [] toolName toolParams trust = Inr None"
| "firstMatch h (rule # rest) toolName toolParams trust =
     (case matchRule h rule toolName toolParams trust of
        Inl e \<Rightarrow> Inl e
      | Inr True \<Rightarrow> Inr (Some rule)
      | Inr False \<Rightarrow> firstMatch h rest toolName toolParams trust)"

definition levels :: "GuardianRiskLevel list" where
  "levels = [Low, Medium, High, Critical]"

text \<open>Subagents get a stricter threshold, one level lower.\<close>

definition adjustedThreshold :: "GuardianTrustLevel \<Rightarrow> GuardianRiskLevel \<Rightarrow> GuardianRiskLevel" where
  "adjustedThreshold trust threshold =
     (if trust = Subagent \<and> RISK_ORDER threshold > 0
      then levels ! (RISK_ORDER threshold - 1)
      else threshold)"

definition list_or_empty :: "'a list option \<Rightarrow> 'a list" where
  "list_or_empty xs = (case xs of None \<Rightarrow> [] | Some ys \<Rightarrow> ys)"

definition matched_result ::
  "GuardianRule \<Rightarrow> risk_value \<Rightarrow> string option \<Rightarrow> GuardianTrustLevel \<Rightarrow> GuardianRuleResult" where
  "matched_result rule risk escalationLabel trust =
     \<lparr>decision = (case rule_action rule of Some a \<Rightarrow> a | None \<Rightarrow> Escalate),
      riskLevel = (case rule_riskLevel rule of Some r \<Rightarrow> maxRisk risk (Level r) | None \<Rightarrow> risk),
      trustLevel = trust,
      reason =
        Some (case or_else escalationLabel (rule_label rule) of
                Some l \<Rightarrow> l
              | None \<Rightarrow> ''matched rule: '' @
                  (case or_else (rule_id rule) (rule_tool rule) of Some n \<Rightarrow> n | None \<Rightarrow> ''*'')),
      ruleLabel = or_else (rule_label rule) (rule_id rule)\<rparr>"

definition unmatched_result ::
  "risk_value \<Rightarrow> string option \<Rightarrow> GuardianRiskLevel \<Rightarrow> GuardianTrustLevel \<Rightarrow> GuardianRuleResult" where
  "unmatched_result risk escalationLabel threshold trust =
     (if trust = Owner \<and> \<not> riskAtLeast risk (Level Critical)
      then \<lparr>decision = Allow, riskLevel = risk, trustLevel = trust,
            reason = Some ''owner bypass (risk below critical)'', ruleLabel = None\<rparr>
      else
        let adjusted = adjustedThreshold trust threshold
        in if riskAtLeast risk (Level adjusted)
           then \<lparr>decision = Escalate, riskLevel = risk, trustLevel = trust,
                 reason = Some (case escalationLabel of
                                  Some l \<Rightarrow> l
                                | None \<Rightarrow> ''risk '' @ risk_name risk @ '' >= threshold '' @
                                           level_name adjusted),
                 ruleLabel = None\<rparr>
           else \<lparr>decision = Allow, riskLevel = risk, trustLevel = trust,
                 reason = Some (''risk '' @ risk_name risk @ '' < threshold '' @ level_name adjusted),
                 ruleLabel = None\<rparr>)"

definition evaluateRules ::
  "host \<Rightarrow> string \<Rightarrow> params \<Rightarrow> GuardianRule list option \<Rightarrow> GuardianRule list option
   \<Rightarrow> GuardianRiskLevel \<Rightarrow> GuardianTrustLevel \<Rightarrow> js_error + GuardianRuleResult" where
  "evaluateRules h rawToolName toolParams globalRules agentRules threshold trust =
     (let toolName = normalizeToolName h rawToolName;
          base = getBaseRisk toolName
      in case checkParamEscalations toolName toolParams of
           Inl e \<Rightarrow> Inl e
         | Inr paramEscalation \<Rightarrow>
             (let risk = (case paramEscalation of
                            None \<Rightarrow> base | Some esc \<Rightarrow> maxRisk base (Level (fst esc)));
                  escalationLabel = (case paramEscalation of
                                       None \<Rightarrow> None | Some esc \<Rightarrow> Some (snd esc));
                  allRules = list_or_empty agentRules @ list_or_empty globalRules
              in (case firstMatch h allRules toolName toolParams trust of
                    Inl e \<Rightarrow> Inl e
                  | Inr None \<Rightarrow> Inr (unmatched_result risk escalationLabel threshold trust)
                  | Inr (Some rule) \<Rightarrow> Inr (matched_result rule risk escalationLabel trust))))"

section \<open>The budget ledger (budget.ts)\<close>

record DailyBudgetEntry =
  date :: string
  totalCost :: rat
  perAgent :: "string \<rightharpoonup> rat"

text \<open>
  The ledger file at \<open>budgetPath\<close>: absent, present but not parseable, or holding a
  \<open>BudgetFile\<close>. \<open>disk_writable\<close> is false when \<open>mkdirSync\<close> or \<open>writeFileSync\<close>
  throws; the source swallows that exception.
\<close>

datatype budget_file = Missing | Corrupt | Stored "DailyBudgetEntry list"

record BudgetTracker =
  budgetPath :: "string option"
  sessionCosts :: "string \<rightharpoonup> rat"
  sessionTotal :: rat
  dailyCache :: "DailyBudgetEntry option"
  disk :: budget_file
  disk_writable :: bool

text \<open>The clock: \<open>todayKey()\<close> and the date seven days earlier, as ISO dates.\<close>

record clock =
  today :: string
  cutoffStr :: string

text \<open>
  Costs are numbers: \<open>perToolCosts\<close> is read by its own entries. (Under the name of an
  inherited member the source would read a function as the cost of the tool.)
\<close>

definition resolveToolCost :: "string \<Rightarrow> GuardianBudgetConfig option \<Rightarrow> rat" where
  "resolveToolCost toolName config =
     (case (case config of None \<Rightarrow> None
            | Some c \<Rightarrow> (case perToolCosts c of None \<Rightarrow> None | Some costs \<Rightarrow> map_of costs toolName)) of
        Some cost \<Rightarrow> cost
      | None \<Rightarrow>
          (case (case config of None \<Rightarrow> None | Some c \<Rightarrow> defaultToolCost c) of
             Some d \<Rightarrow> d
           | None \<Rightarrow> 1 / 100))"

definition createBudgetTracker :: "string option \<Rightarrow> budget_file \<Rightarrow> bool \<Rightarrow> BudgetTracker" where
  "createBudgetTracker path file writable =
     \<lparr>budgetPath = path, sessionCosts = Map.empty, sessionTotal = 0, dailyCache = None,
      disk = file, disk_writable = writable\<rparr>"

definition loadDaily :: "clock \<Rightarrow> BudgetTracker \<Rightarrow> DailyBudgetEntry \<times> BudgetTracker" where
  "loadDaily clk t =
     (case (case dailyCache t of
              Some d \<Rightarrow> if date d = today clk then Some d else None
            | None \<Rightarrow> None) of
        Some d \<Rightarrow> (d, t)
      | None \<Rightarrow>
          (case (if truthy_string (budgetPath t)
                 then (case disk t of
                         Stored entries \<Rightarrow> find (\<lambda>d. date d = today clk) entries
                       | _ \<Rightarrow> None)
                 else None) of
             Some entry \<Rightarrow> (entry, t\<lparr>dailyCache := Some entry\<rparr>)
           | None \<Rightarrow>
               (let fresh = \<lparr>date = today clk, totalCost = 0, perAgent = Map.empty\<rparr>
                in (fresh, t\<lparr>dailyCache := Some fresh\<rparr>))))"

definition saveDaily :: "clock \<Rightarrow> DailyBudgetEntry \<Rightarrow> BudgetTracker \<Rightarrow> BudgetTracker" where
  "saveDaily clk entry t =
     (if \<not> truthy_string (budgetPath t) then t
      else
        let daily = (case disk t of Stored entries \<Rightarrow> entries | _ \<Rightarrow> []);
            kept = filter (\<lambda>d. date d \<ge> cutoffStr clk \<and> date d \<noteq> date entry) daily
        in if disk_writable t then t\<lparr>disk := Stored (kept @ [entry])\<rparr> else t)"

definition getSessionCost :: "string option \<Rightarrow> BudgetTracker \<Rightarrow> rat" where
  "getSessionCost agentId t =
     (if truthy_string agentId
      then (case sessionCosts t (the agentId) of Some c \<Rightarrow> c | None \<Rightarrow> 0)
      else sessionTotal t)"

definition getDailyCost :: "clock \<Rightarrow> string option \<Rightarrow> BudgetTracker \<Rightarrow> rat \<times> BudgetTracker" where
  "getDailyCost clk agentId t =
     (let (daily, t1) = loadDaily clk t
      in if truthy_string agentId
         then (case perAgent daily (the agentId) of Some c \<Rightarrow> (c, t1) | None \<Rightarrow> (0, t1))
         else (totalCost daily, t1))"

text \<open>
  \<open>recordCost\<close>: the session total, the agent's session cost, the cached daily entry
  (the object \<open>loadDaily\<close> returned, updated in place) and the ledger file.
\<close>

definition recordCost :: "clock \<Rightarrow> string \<Rightarrow> rat \<Rightarrow> string option \<Rightarrow> BudgetTracker \<Rightarrow> BudgetTracker" where
  "recordCost clk toolName cost agentId t =
     (let t1 = t\<lparr>sessionTotal := sessionTotal t + cost\<rparr>;
          t2 = (if truthy_string agentId
                then t1\<lparr>sessionCosts := (sessionCosts t1)
                         (the agentId \<mapsto>
                            (case sessionCosts t1 (the agentId) of Some c \<Rightarrow> c | None \<Rightarrow> 0) + cost)\<rparr>
                else t1);
          (daily, t3) = loadDaily clk t2;
          daily1 = daily\<lparr>totalCost := totalCost daily + cost\<rparr>;
          daily2 = (if truthy_string agentId
                    then daily1\<lparr>perAgent := (perAgent daily1)
                           (the agentId \<mapsto>
                              (case perAgent daily1 (the agentId) of Some c \<Rightarrow> c | None \<Rightarrow> 0) + cost)\<rparr>
                    else daily1)
      in saveDaily clk daily2 (t3\<lparr>dailyCache := Some daily2\<rparr>))"

definition reset :: "BudgetTracker \<Rightarrow> BudgetTracker" where
  "reset t = t\<lparr>sessionCosts := Map.empty, sessionTotal := 0, dailyCache := None\<rparr>"

record GuardianBudgetResult =
  exceeded :: bool
  budget_action :: "on_exceeded option"
  budget_reason :: "string option"

definition checkBudget ::
  "host \<Rightarrow> clock \<Rightarrow> string \<Rightarrow> GuardianBudgetConfig option \<Rightarrow> BudgetTracker \<Rightarrow> string option
   \<Rightarrow> GuardianBudgetResult \<times> BudgetTracker" where
  "checkBudget h clk toolName budgetConfig t agentId =
     (case (case budgetConfig of
              None \<Rightarrow> None
            | Some c \<Rightarrow> if truthy_flag (budget_enabled c) then Some c else None) of
        None \<Rightarrow> (\<lparr>exceeded = False, budget_action = None, budget_reason = None\<rparr>, t)
      | Some c \<Rightarrow>
          (let cost = resolveToolCost toolName budgetConfig;
               act = (case onExceeded c of Some a \<Rightarrow> a | None \<Rightarrow> OnDeny);
               currentSession = getSessionCost agentId t
           in if (case sessionLimit c of None \<Rightarrow> False | Some l \<Rightarrow> currentSession + cost > l)
              then (\<lparr>exceeded = True, budget_action = Some act,
                     budget_reason = Some (''Session budget exceeded: $'' @
                       toFixed4 h (currentSession + cost) @ '' > $'' @
                       number_text h (the (sessionLimit c)) @ '' limit'')\<rparr>, t)
              else (case dailyLimit c of
                      None \<Rightarrow> (\<lparr>exceeded = False, budget_action = None, budget_reason = None\<rparr>, t)
                    | Some l \<Rightarrow>
                        (let (currentDaily, t1) = getDailyCost clk agentId t
                         in if currentDaily + cost > l
                            then (\<lparr>exceeded = True, budget_action = Some act,
                                   budget_reason = Some (''Daily budget exceeded: $'' @
                                     toFixed4 h (currentDaily + cost) @ '' > $'' @
                                     number_text h l @ '' limit'')\<rparr>, t1)
                            else (\<lparr>exceeded = False, budget_action = None,
                                   budget_reason = None\<rparr>, t1)))))"

definition recordToolCost ::
  "clock \<Rightarrow> string \<Rightarrow> GuardianBudgetConfig option \<Rightarrow> string option \<Rightarrow> BudgetTracker \<Rightarrow> BudgetTracker" where
  "recordToolCost clk toolName budgetConfig agentId t =
     recordCost clk toolName (resolveToolCost toolName budgetConfig) agentId t"

section \<open>Tier 2: the delegated adjudicator (llm-evaluator.ts)\<close>

record GuardianLLMResult =
  llm_decision :: GuardianRuleAction
  llm_reason :: jsvalue

text \<open>
  \<open>callLLM\<close> is an opaque asynchronous function that \<open>evaluateWithLLM\<close> races against a
  timer. The model takes the way that race settles: the text returned in time, the
  timer's rejection, or the rejection of the call with \<open>String(err)\<close>. The prompts built
  by \<open>buildSystemPrompt\<close> and \<open>buildUserMessage\<close> are only arguments of the opaque call.
\<close>

datatype llm_outcome = Returned string | TimedOut | Rejected string

text \<open>JavaScript truthiness of a parsed value.\<close>

definition truthy :: "jsvalue \<Rightarrow> bool" where
  "truthy v =
     (case v of JUndefined \<Rightarrow> False | JNull \<Rightarrow> False | JBool b \<Rightarrow> b | JNumber n \<Rightarrow> n \<noteq> 0
      | JString s \<Rightarrow> s \<noteq> [] | _ \<Rightarrow> True)"

text \<open>
  Property access \<open>v.key\<close> on a parsed value: a TypeError on \<open>null\<close> and \<open>undefined\<close>,
  the property of an object, \<open>undefined\<close> on anything else.
\<close>

definition get_prop :: "jsvalue \<Rightarrow> string \<Rightarrow> js_error + jsvalue" where
  "get_prop v key =
     (case v of
        JNull \<Rightarrow> Inl TypeError
      | JUndefined \<Rightarrow> Inl TypeError
      | JObject kvs \<Rightarrow> Inr (get_param kvs key)
      | _ \<Rightarrow> Inr JUndefined)"

definition decision_of_text :: "string \<Rightarrow> GuardianRuleAction option" where
  "decision_of_text d =
     (if d = ''allow'' then Some Allow
      else if d = ''deny'' then Some Deny
      else if d = ''escalate'' then Some Escalate
      else None)"

text \<open>\<open>/\{[^}]*"decision"\s*:\s*"[^"]+"/\<close>\<close>

definition decision_pattern :: regex where
  "decision_pattern =
     seqs [lit ''{'', Star (Atom (NoneOf ''}'')), lit ([dq] @ ''decision'' @ [dq]),
           Star space_class, lit '':'', Star space_class, lit [dq],
           plus (Atom (NoneOf [dq])), lit [dq]]"

text \<open>
  The index at which the leftmost match starts. The source takes
  \<open>cleaned.indexOf(jsonMatch[0])\<close>, the first occurrence of the matched text; the
  matched text matches wherever it occurs, so that is where the leftmost match starts.
\<close>

fun match_start :: "regex \<Rightarrow> string \<Rightarrow> nat \<Rightarrow> nat option" where
  "match_start r [] i = (if nullable r then Some i else None)"
| "match_start r (c # cs) i =
     (if prefix_match False r (c # cs) then Some i else match_start r cs (Suc i))"

definition slice :: "string \<Rightarrow> nat \<Rightarrow> nat \<Rightarrow> string" where
  "slice s from to = take (to - from) (drop from s)"

text \<open>
  The inner \<open>try\<close>: parse the balanced span and read its decision. Every exception is
  caught and leads, like an unknown decision, to the \<open>break\<close>.
\<close>

definition parse_span :: "host \<Rightarrow> string \<Rightarrow> GuardianLLMResult option" where
  "parse_span h txt =
     (case JSON_parse h txt of
        None \<Rightarrow> None
      | Some obj \<Rightarrow>
          (case get_prop obj ''decision'' of
             Inl e \<Rightarrow> None
           | Inr JUndefined \<Rightarrow> None
           | Inr JNull \<Rightarrow> None
           | Inr (JString d) \<Rightarrow>
               (case decision_of_text (trim (toLowerCase d)) of
                  None \<Rightarrow> None
                | Some a \<Rightarrow>
                    Some \<lparr>llm_decision = a,
                          llm_reason = (case get_prop obj ''reason'' of Inl e \<Rightarrow> JUndefined | Inr r \<Rightarrow> r)\<rparr>)
           | Inr _ \<Rightarrow> None))"

text \<open>
  The loop that looks for the closing brace: \<open>i\<close> is the index of the first character
  of \<open>rest\<close> in \<open>cleaned\<close>.
\<close>

fun scan_braces ::
  "host \<Rightarrow> string \<Rightarrow> nat \<Rightarrow> nat \<Rightarrow> int \<Rightarrow> string \<Rightarrow> GuardianLLMResult option" where
  "scan_braces h cleaned start i depth [] = None"
| "scan_braces h cleaned start i depth (c # rest) =
     (let depth1 = (if c = CHR ''{'' then depth + 1 else depth)
      in if c = CHR ''}''
         then (if depth1 - 1 = 0 then parse_span h (slice cleaned start (i + 1))
               else scan_braces h cleaned start (Suc i) (depth1 - 1) rest)
         else scan_braces h cleaned start (Suc i) depth1 rest)"

definition extract_decision :: "host \<Rightarrow> string \<Rightarrow> GuardianLLMResult option" where
  "extract_decision h cleaned =
     (case match_start decision_pattern cleaned 0 of
        None \<Rightarrow> None
      | Some start \<Rightarrow> scan_braces h cleaned start start 0 (drop start cleaned))"

definition could_not_parse :: GuardianLLMResult where
  "could_not_parse = \<lparr>llm_decision = Escalate, llm_reason = JString ''Could not parse LLM response''\<rparr>"

definition or_fallback :: "GuardianLLMResult option \<Rightarrow> GuardianLLMResult" where
  "or_fallback r = (case r of Some x \<Rightarrow> x | None \<Rightarrow> could_not_parse)"

definition parseDecision :: "host \<Rightarrow> string \<Rightarrow> GuardianLLMResult" where
  "parseDecision h text =
     (let cleaned = trim text
      in case JSON_parse h cleaned of
           None \<Rightarrow> or_fallback (extract_decision h cleaned)
         | Some parsed \<Rightarrow>
             (case get_prop parsed ''decision'' of
                Inl e \<Rightarrow> or_fallback (extract_decision h cleaned)
              | Inr d \<Rightarrow>
                  if \<not> truthy d then could_not_parse
                  else (case d of
                          JString ds \<Rightarrow>
                            (case decision_of_text (trim (toLowerCase ds)) of
                               Some a \<Rightarrow>
                                 \<lparr>llm_decision = a,
                                  llm_reason = (case get_prop parsed ''reason'' of
                                                  Inl e \<Rightarrow> JUndefined | Inr r \<Rightarrow> r)\<rparr>
                             | None \<Rightarrow> could_not_parse)
                        | _ \<Rightarrow> or_fallback (extract_decision h cleaned))))"

definition evaluateWithLLM :: "host \<Rightarrow> llm_outcome \<Rightarrow> GuardianLLMResult" where
  "evaluateWithLLM h outcome =
     (case outcome of
        Returned text \<Rightarrow> parseDecision h text
      | TimedOut \<Rightarrow>
          \<lparr>llm_decision = Escalate,
           llm_reason = JString ''LLM evaluation failed: Error: LLM evaluation timed out''\<rparr>
      | Rejected err \<Rightarrow>
          \<lparr>llm_decision = Escalate, llm_reason = JString (''LLM evaluation failed: '' @ err)\<rparr>)"

section \<open>The guardian hook (hook.ts)\<close>

record HumanApprovalRequest =
  req_toolName :: string
  req_toolParams :: params
  req_riskLevel :: risk_value
  req_trustLevel :: string
  req_reason :: "string option"
  req_agentId :: "string option"
  req_sessionKey :: "string option"
  req_timeoutMs :: nat

text \<open>
  \<open>callLLM\<close>, when configured, is given by the way its race settles in this evaluation;
  \<open>requestHumanApproval\<close> is a function of the request whose promise resolves to a
  decision or \<open>null\<close> (\<open>None\<close>), or is rejected. The budget tracker is a mutable object
  and lives in the state of the hook, with the two caches.
\<close>

record GuardianHookParams =
  config :: GuardianConfig
  hp_agentId :: "string option"
  hp_sessionKey :: "string option"
  hp_senderIsOwner :: "bool option"
  hp_isSubagent :: "bool option"
  hp_isAllowed :: "bool option"
  callLLM :: "llm_outcome option"
  requestHumanApproval :: "(HumanApprovalRequest \<Rightarrow> js_error + GuardianDecision option) option"

record hook_state =
  taskAllowCache :: "string set"
  alwaysAllowCache :: "string set"
  budgetTracker :: "BudgetTracker option"

text \<open>The result of the handler: \<open>void\<close>, a block with its reason, or an exception.\<close>

datatype hook_result = Proceed | Block jsvalue | Threw js_error

definition trust_name :: "GuardianTrustLevel \<Rightarrow> string" where
  "trust_name t = (case t of Owner \<Rightarrow> ''owner'' | Allowed \<Rightarrow> ''allowed'' | Unknown \<Rightarrow> ''unknown''
                   | Subagent \<Rightarrow> ''subagent'')"

text \<open>\<open>toSorted\<close> is a stable sort; the comparator is \<open>localeCompare\<close> on the keys.\<close>

fun insert_entry :: "(string \<Rightarrow> string \<Rightarrow> bool) \<Rightarrow> string \<times> 'v \<Rightarrow> (string \<times> 'v) list \<Rightarrow> (string \<times> 'v) list" where
  "insert_entry le x [] = [x]"
| "insert_entry le x (y # ys) = (if le (fst y) (fst x) then y # insert_entry le x ys else x # y # ys)"

definition toSorted :: "(string \<Rightarrow> string \<Rightarrow> bool) \<Rightarrow> (string \<times> 'v) list \<Rightarrow> (string \<times> 'v) list" where
  "toSorted le xs = foldl (\<lambda>acc x. insert_entry le x acc) [] xs"

definition value_text :: "jsvalue \<Rightarrow> string" where
  "value_text v = (case JSON_stringify v of Inl e \<Rightarrow> String_of v | Inr s \<Rightarrow> to_str s)"

definition cacheKey :: "host \<Rightarrow> string \<Rightarrow> params \<Rightarrow> string" where
  "cacheKey h toolName toolParams =
     toolName @ '':'' @
     join ''&'' (map (\<lambda>kv. fst kv @ ''='' @ value_text (snd kv)) (toSorted (locale_le h) toolParams))"

definition resolveDecision :: "GuardianDecision option \<Rightarrow> string \<Rightarrow> hook_state \<Rightarrow> hook_result \<times> hook_state" where
  "resolveDecision d key st =
     (if d = None \<or> d = Some DenyDecision then (Block (JString ''Denied by operator''), st)
      else
        let st1 = (if d = Some AllowSession
                   then st\<lparr>taskAllowCache := insert key (taskAllowCache st)\<rparr> else st);
            st2 = (if d = Some AllowAlways
                   then st1\<lparr>alwaysAllowCache := insert key (alwaysAllowCache st1)\<rparr> else st1)
        in (Proceed, st2))"

text \<open>
  \<open>recordCostIfEnabled\<close>, and the same call written out on the cache path: the cost is
  recorded whenever a tracker is configured.
\<close>

definition recordCostIfEnabled ::
  "clock \<Rightarrow> GuardianHookParams \<Rightarrow> string \<Rightarrow> string option \<Rightarrow> hook_state \<Rightarrow> hook_state" where
  "recordCostIfEnabled clk ps toolName agentId st =
     (case budgetTracker st of
        None \<Rightarrow> st
      | Some t \<Rightarrow>
          st\<lparr>budgetTracker :=
               Some (recordToolCost clk toolName (effectiveBudget (config ps) agentId) agentId t)\<rparr>)"

definition await_human ::
  "GuardianHookParams \<Rightarrow> HumanApprovalRequest \<Rightarrow> string \<Rightarrow> hook_state \<Rightarrow> (hook_result \<times> hook_state) option" where
  "await_human ps req key st =
     (case requestHumanApproval ps of
        None \<Rightarrow> None
      | Some ask \<Rightarrow>
          Some (case ask req of
                  Inl e \<Rightarrow> (Threw e, st)
                | Inr d \<Rightarrow> resolveDecision d key st))"

definition reason_or :: "string option \<Rightarrow> string \<Rightarrow> jsvalue" where
  "reason_or r dflt = JString (case r of Some x \<Rightarrow> x | None \<Rightarrow> dflt)"

definition human_timeout :: "GuardianHookParams \<Rightarrow> nat" where
  "human_timeout ps = (case timeoutMs (config ps) of Some t \<Rightarrow> t | None \<Rightarrow> 120000)"

text \<open>Tier 3 after Tier 1 and Tier 2 have escalated.\<close>

definition tier3 ::
  "GuardianHookParams \<Rightarrow> string \<Rightarrow> params \<Rightarrow> string option \<Rightarrow> GuardianRuleResult \<Rightarrow> string
   \<Rightarrow> hook_state \<Rightarrow> hook_result \<times> hook_state" where
  "tier3 ps toolName toolParams agentId ruleResult key st =
     (case await_human ps
             \<lparr>req_toolName = toolName, req_toolParams = toolParams,
              req_riskLevel = riskLevel ruleResult,
              req_trustLevel = trust_name (trustLevel ruleResult),
              req_reason = reason ruleResult, req_agentId = agentId,
              req_sessionKey = hp_sessionKey ps, req_timeoutMs = human_timeout ps\<rparr> key st of
        Some r \<Rightarrow> r
      | None \<Rightarrow>
          (Block (reason_or (reason ruleResult)
                    ''Escalated but no human approval handler configured''), st))"

text \<open>Tier 1, then Tier 2 when a caller is configured, then Tier 3.\<close>

definition tiers ::
  "host \<Rightarrow> clock \<Rightarrow> GuardianHookParams \<Rightarrow> string \<Rightarrow> params \<Rightarrow> string option \<Rightarrow> bool option
   \<Rightarrow> string \<Rightarrow> hook_state \<Rightarrow> hook_result \<times> hook_state" where
  "tiers h clk ps toolName toolParams agentId ctx_senderIsOwner key st =
     (let trust = resolveTrustLevel (or_else ctx_senderIsOwner (hp_senderIsOwner ps))
                    (hp_isSubagent ps) (hp_isAllowed ps);
          agentRules = (case agent_config (config ps) (case agentId of Some a \<Rightarrow> a | None \<Rightarrow> [])
                        of None \<Rightarrow> None | Some a \<Rightarrow> agent_rules a)
      in case evaluateRules h toolName toolParams (rules (config ps)) agentRules
                (effectiveThreshold (config ps) agentId) trust of
           Inl e \<Rightarrow> (Threw e, st)
         | Inr ruleResult \<Rightarrow>
             if decision ruleResult = Allow
             then (Proceed, recordCostIfEnabled clk ps toolName agentId st)
             else if decision ruleResult = Deny
             then (Block (reason_or (reason ruleResult) ''Denied by guardian rule''), st)
             else (case callLLM ps of
                     None \<Rightarrow> tier3 ps toolName toolParams agentId ruleResult key st
                   | Some outcome \<Rightarrow>
                       (let llmResult = evaluateWithLLM h outcome
                        in if llm_decision llmResult = Allow
                           then (Proceed, recordCostIfEnabled clk ps toolName agentId st)
                           else if llm_decision llmResult = Deny
                           then (Block (if llm_reason llmResult = JUndefined \<or> llm_reason llmResult = JNull
                                        then JString ''Denied by guardian LLM''
                                        else llm_reason llmResult), st)
                           else tier3 ps toolName toolParams agentId ruleResult key st)))"

text \<open>The budget gate, run before Tier 1 when a tracker is configured.\<close>

definition budget_gate ::
  "host \<Rightarrow> clock \<Rightarrow> GuardianHookParams \<Rightarrow> string \<Rightarrow> params \<Rightarrow> string option \<Rightarrow> bool option
   \<Rightarrow> string \<Rightarrow> hook_state \<Rightarrow> (hook_result \<times> hook_state) + hook_state" where
  "budget_gate h clk ps toolName toolParams agentId ctx_senderIsOwner key st =
     (case budgetTracker st of
        None \<Rightarrow> Inr st
      | Some t \<Rightarrow>
          (let (budgetResult, t1) =
                 checkBudget h clk toolName (effectiveBudget (config ps) agentId) t agentId;
               st1 = st\<lparr>budgetTracker := Some t1\<rparr>
           in if \<not> exceeded budgetResult then Inr st1
              else if budget_action budgetResult = Some OnDeny
              then Inl (Block (reason_or (budget_reason budgetResult) ''Budget exceeded''), st1)
              else (case await_human ps
                           \<lparr>req_toolName = toolName, req_toolParams = toolParams,
                            req_riskLevel = Level Critical,
                            req_trustLevel = trust_name
                              (resolveTrustLevel (or_else ctx_senderIsOwner (hp_senderIsOwner ps))
                                 (hp_isSubagent ps) (hp_isAllowed ps)),
                            req_reason = Some (case budget_reason budgetResult of
                                                 Some r \<Rightarrow> r | None \<Rightarrow> ''Budget exceeded''),
                            req_agentId = agentId, req_sessionKey = hp_sessionKey ps,
                            req_timeoutMs = human_timeout ps\<rparr> key st1 of
                      Some r \<Rightarrow> Inl r
                    | None \<Rightarrow>
                        Inl (Block (reason_or (budget_reason budgetResult) ''Budget exceeded''), st1))))"

definition handler ::
  "host \<Rightarrow> clock \<Rightarrow> GuardianHookParams \<Rightarrow> string \<Rightarrow> params \<Rightarrow> string option \<Rightarrow> bool option
   \<Rightarrow> hook_state \<Rightarrow> hook_result \<times> hook_state" where
  "handler h clk ps event_toolName event_params ctx_agentId ctx_senderIsOwner st =
     (if \<not> truthy_flag (enabled (config ps)) then (Proceed, st)
      else
        let toolName = normalizeToolName h event_toolName;
            toolParams = event_params;
            agentId = or_else ctx_agentId (hp_agentId ps);
            key = cacheKey h toolName toolParams
        in if key \<in> alwaysAllowCache st \<or> key \<in> taskAllowCache st
           then (Proceed, recordCostIfEnabled clk ps toolName agentId st)
           else (case budget_gate h clk ps toolName toolParams agentId ctx_senderIsOwner key st of
                   Inl r \<Rightarrow> r
                 | Inr st1 \<Rightarrow>
                     tiers h clk ps toolName toolParams agentId ctx_senderIsOwner key st1))"

text \<open>
  What \<open>recordCost\<close> adds to and what it writes: the session totals and the ledger
  file of the hook's tracker.
\<close>

definition session_ledger :: "hook_state \<Rightarrow> (rat \<times> (string \<rightharpoonup> rat) \<times> budget_file) option" where
  "session_ledger st = map_option (\<lambda>t. (sessionTotal t, sessionCosts t, disk t)) (budgetTracker st)"

section \<open>Tier 3: pending approvals (guardian-approval-manager.ts)\<close>

record GuardianApprovalRequestPayload =
  p_toolName :: string
  p_params :: params
  p_riskLevel :: "string option"
  p_trustLevel :: "string option"
  p_reason :: "string option"
  p_agentId :: "string option"
  p_sessionKey :: "string option"

text \<open>
  \<open>resolvedBy\<close> is \<open>None\<close> while the field is unset, \<open>Some None\<close> for \<open>null\<close>.
\<close>

record GuardianApprovalRecord =
  ar_id :: string
  request :: GuardianApprovalRequestPayload
  createdAtMs :: nat
  expiresAtMs :: nat
  resolvedAtMs :: "nat option"
  ar_decision :: "GuardianDecision option"
  resolvedBy :: "string option option"

text \<open>
  A record is an object shared by the caller of \<open>create\<close> and the pending entry, and
  \<open>resolve\<close> writes to it: records live in a store, and an entry holds the address of
  its record, the promise its \<open>resolve\<close> function settles, and its timer.
\<close>

record PendingEntry =
  entry_record :: nat
  entry_promise :: nat
  entry_timer :: nat

text \<open>
  \<open>timers\<close> holds the armed timers with what their callback closes over (the record
  and the promise); \<open>promises\<close> holds the settled promises with their value, \<open>None\<close>
  for \<open>null\<close>; \<open>next_ref\<close> is the next unused address.
\<close>

record GuardianApprovalManager =
  pending :: "string \<rightharpoonup> PendingEntry"
  records :: "nat \<rightharpoonup> GuardianApprovalRecord"
  timers :: "nat \<rightharpoonup> nat \<times> nat"
  promises :: "nat \<rightharpoonup> GuardianDecision option"
  next_ref :: nat

definition new_manager :: GuardianApprovalManager where
  "new_manager = \<lparr>pending = Map.empty, records = Map.empty, timers = Map.empty,
                   promises = Map.empty, next_ref = 0\<rparr>"

text \<open>Settling a promise: only the first call of its \<open>resolve\<close> function has an effect.\<close>

definition settle ::
  "nat \<Rightarrow> GuardianDecision option \<Rightarrow> (nat \<rightharpoonup> GuardianDecision option) \<Rightarrow> (nat \<rightharpoonup> GuardianDecision option)" where
  "settle p v ps = (case ps p of None \<Rightarrow> ps(p \<mapsto> v) | Some w \<Rightarrow> ps)"

text \<open>\<open>create\<close>: \<open>now\<close> is \<open>Date.now()\<close> and \<open>uuid\<close> what \<open>randomUUID()\<close> returns.\<close>

definition resolved_id :: "string option \<Rightarrow> string \<Rightarrow> string" where
  "resolved_id explicit uuid =
     (case explicit of
        None \<Rightarrow> uuid
      | Some i \<Rightarrow> if i \<noteq> [] \<and> length (trim i) > 0 then trim i else uuid)"

definition create ::
  "nat \<Rightarrow> string \<Rightarrow> GuardianApprovalRequestPayload \<Rightarrow> nat \<Rightarrow> string option \<Rightarrow> GuardianApprovalManager
   \<Rightarrow> nat \<times> GuardianApprovalManager" where
  "create now uuid req timeout explicit m =
     (let r = \<lparr>ar_id = resolved_id explicit uuid, request = req, createdAtMs = now,
                expiresAtMs = now + timeout, resolvedAtMs = None, ar_decision = None,
                resolvedBy = None\<rparr>;
          ref = next_ref m
      in (ref, m\<lparr>records := (records m)(ref \<mapsto> r), next_ref := Suc ref\<rparr>))"

text \<open>
  \<open>waitForDecision\<close> arms the timer, then stores the entry under the record's id,
  replacing whatever entry was there. The result is the promise; \<open>None\<close> stands for an
  address that holds no record.
\<close>

definition waitForDecision ::
  "nat \<Rightarrow> nat \<Rightarrow> GuardianApprovalManager \<Rightarrow> (nat \<times> GuardianApprovalManager) option" where
  "waitForDecision ref timeout m =
     (case records m ref of
        None \<Rightarrow> None
      | Some r \<Rightarrow>
          (let p = next_ref m; t = Suc (next_ref m)
           in Some (p, m\<lparr>timers := (timers m)(t \<mapsto> (ref, p)),
                          pending := (pending m)
                            (ar_id r \<mapsto> \<lparr>entry_record = ref, entry_promise = p, entry_timer = t\<rparr>),
                          next_ref := Suc (Suc (next_ref m))\<rparr>)))"

text \<open>The timer's callback; a cleared timer never runs it.\<close>

definition timer_fires :: "nat \<Rightarrow> GuardianApprovalManager \<Rightarrow> GuardianApprovalManager" where
  "timer_fires t m =
     (case timers m t of
        None \<Rightarrow> m
      | Some (ref, p) \<Rightarrow>
          (let m1 = m\<lparr>timers := (timers m)(t := None)\<rparr>;
               m2 = (case records m1 ref of
                       None \<Rightarrow> m1
                     | Some r \<Rightarrow> m1\<lparr>pending := (pending m1)(ar_id r := None)\<rparr>)
           in m2\<lparr>promises := settle p None (promises m2)\<rparr>))"

definition resolve ::
  "nat \<Rightarrow> string \<Rightarrow> GuardianDecision \<Rightarrow> string option \<Rightarrow> GuardianApprovalManager
   \<Rightarrow> bool \<times> GuardianApprovalManager" where
  "resolve now recordId d by m =
     (case pending m recordId of
        None \<Rightarrow> (False, m)
      | Some e \<Rightarrow>
          (let m1 = m\<lparr>timers := (timers m)(entry_timer e := None)\<rparr>;
               m2 = (case records m1 (entry_record e) of
                       None \<Rightarrow> m1
                     | Some r \<Rightarrow>
                         m1\<lparr>records := (records m1)
                              (entry_record e \<mapsto>
                                 r\<lparr>resolvedAtMs := Some now, ar_decision := Some d,
                                   resolvedBy := Some by\<rparr>)\<rparr>);
               m3 = m2\<lparr>pending := (pending m2)(recordId := None)\<rparr>
           in (True, m3\<lparr>promises := settle (entry_promise e) (Some d) (promises m3)\<rparr>)))"

definition getSnapshot :: "string \<Rightarrow> GuardianApprovalManager \<Rightarrow> GuardianApprovalRecord option" where
  "getSnapshot recordId m =
     (case pending m recordId of None \<Rightarrow> None | Some e \<Rightarrow> records m (entry_record e))"

subsection \<open>The gateway method guardian.approval.request\<close>

record ApprovalRequestParams =
  q_id :: "string option"
  q_toolName :: string
  q_params :: "params option"
  q_riskLevel :: "string option"
  q_trustLevel :: "string option"
  q_reason :: "string option"
  q_agentId :: "string option"
  q_sessionKey :: "string option"
  q_timeoutMs :: "nat option"

text \<open>
  What \<open>GuardianApprovalRequestParamsSchema\<close> asks of a typed request: a non-empty tool
  name, a non-empty id when one is given, a timeout of at least 1.
\<close>

definition validateGuardianApprovalRequestParams :: "ApprovalRequestParams \<Rightarrow> bool" where
  "validateGuardianApprovalRequestParams q =
     (q_toolName q \<noteq> [] \<and>
      (case q_id q of None \<Rightarrow> True | Some i \<Rightarrow> i \<noteq> []) \<and>
      (case q_timeoutMs q of None \<Rightarrow> True | Some t \<Rightarrow> t \<ge> 1))"

text \<open>
  The handler up to the point where it awaits the decision: either it has responded
  with an error, or a record is registered and its promise is awaited. The address
  that \<open>create\<close> returns holds the new record, so \<open>waitForDecision\<close> finds it.
\<close>

datatype request_progress = InvalidRequest string | Awaiting nat nat

definition approval_request ::
  "nat \<Rightarrow> string \<Rightarrow> ApprovalRequestParams \<Rightarrow> GuardianApprovalManager
   \<Rightarrow> request_progress \<times> GuardianApprovalManager" where
  "approval_request now uuid q m =
     (if \<not> validateGuardianApprovalRequestParams q
      then (InvalidRequest ''invalid guardian.approval.request params'', m)
      else
        let timeout = (case q_timeoutMs q of Some t \<Rightarrow> t | None \<Rightarrow> 120000);
            explicitId = (case q_id q of
                            None \<Rightarrow> None
                          | Some i \<Rightarrow> if length (trim i) > 0 then Some (trim i) else None)
        in if (case explicitId of None \<Rightarrow> False | Some e \<Rightarrow> e \<noteq> [] \<and> getSnapshot e m \<noteq> None)
           then (InvalidRequest ''approval id already pending'', m)
           else
             let req = \<lparr>p_toolName = q_toolName q,
                        p_params = (case q_params q of Some ps \<Rightarrow> ps | None \<Rightarrow> []),
                        p_riskLevel = q_riskLevel q, p_trustLevel = q_trustLevel q,
                        p_reason = q_reason q, p_agentId = q_agentId q,
                        p_sessionKey = q_sessionKey q\<rparr>;
                 (ref, m1) = create now uuid req timeout explicitId m
             in (case waitForDecision ref timeout m1 of
                   None \<Rightarrow> (InvalidRequest ''record not found'', m1)
                 | Some (p, m2) \<Rightarrow> (Awaiting ref p, m2)))"

section \<open>A host for the examples\<close>

text \<open>
  Modelled from the spec: \<open>normalizeToolName\<close> is not among the sources; the tool name
  is "normalized (trimmed, case-folded)". The other fields agree with the language on
  the inputs the examples give them: a pattern of letters, digits and spaces compiles
  to itself, the listed texts are what \<open>JSON.parse\<close> accepts among the texts it is
  given, and keys are compared by code units.
\<close>

definition normalizeToolName_spec :: "string \<Rightarrow> string" where
  "normalizeToolName_spec s = toLowerCase (trim s)"

definition example_RegExp_i :: "string \<Rightarrow> (string \<Rightarrow> bool) option" where
  "example_RegExp_i p =
     (if set p \<subseteq> set ''abcdefghijklmnopqrstuvwxyzABCDEFGHIJKLMNOPQRSTUVWXYZ0123456789 ''
      then Some (regex_test True (lit p)) else None)"

definition example_json_texts :: "(string \<times> jsvalue) list" where
  "example_json_texts =
     [(''{'' @ [dq] @ ''decision'' @ [dq] @ '':'' @ [dq] @ ''allow'' @ [dq] @ ''}'',
       JObject [(''decision'', JString ''allow'')])]"

definition example_host :: host where
  "example_host =
     \<lparr>normalizeToolName = normalizeToolName_spec,
      new_RegExp_i = example_RegExp_i,
      JSON_parse = map_of example_json_texts,
      toFixed4 = (\<lambda>q. ''?''),
      number_text = (\<lambda>q. ''?''),
      locale_le = (\<lambda>a b. a \<le> b)\<rparr>"

text \<open>
  A hook for the examples: the guardian is enabled, one rule escalates every \<open>exec\<close>
  call, the budget is enabled with a cost of 0.01 per call, and the hook runs for the
  agent \<open>agent-a\<close> on behalf of an allowed sender. \<open>checked_tracker\<close> is the fresh
  tracker after the budget gate has read the daily total.
\<close>

definition example_rule :: GuardianRule where
  "example_rule =
     \<lparr>rule_id = None, rule_tool = Some ''exec'', rule_paramMatches = None, rule_minTrust = None,
      rule_riskLevel = None, rule_action = Some Escalate, rule_label = Some ''escalate exec''\<rparr>"

definition example_config :: GuardianConfig where
  "example_config =
     \<lparr>enabled = Some True, approvalThreshold = Some High, timeoutMs = None,
      rules = Some [example_rule], constitution = None, constitutionPath = None,
      budget = Some \<lparr>budget_enabled = Some True, sessionLimit = Some 10, dailyLimit = Some 50,
                      perToolCosts = None, defaultToolCost = Some (1 / 100),
                      onExceeded = Some OnDeny\<rparr>,
      agents = None\<rparr>"

definition example_params ::
  "llm_outcome option \<Rightarrow> (HumanApprovalRequest \<Rightarrow> js_error + GuardianDecision option) option
   \<Rightarrow> GuardianHookParams" where
  "example_params llm ask =
     \<lparr>config = example_config, hp_agentId = Some ''agent-a'', hp_sessionKey = None,
      hp_senderIsOwner = None, hp_isSubagent = None, hp_isAllowed = Some True,
      callLLM = llm, requestHumanApproval = ask\<rparr>"

definition example_clock :: clock where
  "example_clock = \<lparr>today = ''2026-01-15'', cutoffStr = ''2026-01-08''\<rparr>"

definition example_state :: hook_state where
  "example_state =
     \<lparr>taskAllowCache = {}, alwaysAllowCache = {},
      budgetTracker = Some (createBudgetTracker None Missing False)\<rparr>"

definition ls_call :: params where
  "ls_call = [(''command'', JString ''ls'')]"

definition ls_key :: string where
  "ls_key = ''exec:command='' @ [dq] @ ''ls'' @ [dq]"

definition checked_tracker :: BudgetTracker where
  "checked_tracker =
     (createBudgetTracker None Missing False)
       \<lparr>dailyCache := Some \<lparr>date = ''2026-01-15'', totalCost = 0, perAgent = Map.empty\<rparr>\<rparr>"

definition ls_request :: HumanApprovalRequest where
  "ls_request =
     \<lparr>req_toolName = ''exec'', req_toolParams = ls_call, req_riskLevel = Level High,
      req_trustLevel = ''allowed'', req_reason = Some ''escalate exec'',
      req_agentId = Some ''agent-a'', req_sessionKey = None, req_timeoutMs = 120000\<rparr>"

definition colliding_1 :: params where
  "colliding_1 = [(''a=1&b'', JNumber 2)]"

definition colliding_2 :: params where
  "colliding_2 = [(''a'', JNumber 1), (''b'', JNumber 2)]"

definition approve_first :: "HumanApprovalRequest \<Rightarrow> js_error + GuardianDecision option" where
  "approve_first req =
     Inr (if req_toolParams req = colliding_1 then Some AllowAlways else Some DenyDecision)"

definition no_budget_state :: hook_state where
  "no_budget_state = \<lparr>taskAllowCache = {}, alwaysAllowCache = {}, budgetTracker = None\<rparr>"

definition circular_call :: params where
  "circular_call = [(''path'', JCircular)]"


text \<open>A rule with a parameter pattern, for a call whose \<open>path\<close> is a circular object.\<close>

definition path_rule :: GuardianRule where
  "path_rule =
     \<lparr>rule_id = Some ''tmp-files'', rule_tool = None,
      rule_paramMatches = Some [(''path'', ''tmp'')], rule_minTrust = None,
      rule_riskLevel = None, rule_action = Some Allow, rule_label = None\<rparr>"

text \<open>A request with the explicit id \<open>a\<close>, and the manager in which it is pending.\<close>

definition example_request :: ApprovalRequestParams where
  "example_request =
     \<lparr>q_id = Some '' a '', q_toolName = ''exec'', q_params = Some [(''command'', JString ''ls'')],
      q_riskLevel = Some ''high'', q_trustLevel = None, q_reason = None, q_agentId = None,
      q_sessionKey = None, q_timeoutMs = Some 500\<rparr>"

definition example_payload :: GuardianApprovalRequestPayload where
  "example_payload =
     \<lparr>p_toolName = ''exec'', p_params = [], p_riskLevel = None, p_trustLevel = None,
      p_reason = None, p_agentId = None, p_sessionKey = None\<rparr>"

definition pending_a :: GuardianApprovalManager where
  "pending_a = snd (approval_request 1000 ''uuid-1'' example_request new_manager)"

section \<open>Invariant of the approval manager\<close>

text \<open>
  Every pending entry points to an allocated record that carries the id under which
  the entry is stored.
\<close>

definition wf_manager :: "GuardianApprovalManager \<Rightarrow> bool" where
  "wf_manager m =
     (\<forall>i e. pending m i = Some e \<longrightarrow>
        entry_record e < next_ref m \<and> (\<exists>r. records m (entry_record e) = Some r \<and> ar_id r = i))"


section \<open>Risk and the base risk\<close>

lemma RISK_ORDER_at_maxRisk:
  "RISK_ORDER_at a = Some n \<Longrightarrow>
   RISK_ORDER_at (maxRisk a (Level l)) = Some (max n (RISK_ORDER l))"
  by (auto simp: maxRisk_def js_ge_def RISK_ORDER_at_def max_def)

lemma riskLevel_matched:
  "RISK_ORDER_at risk = Some n \<Longrightarrow>
   \<exists>m. RISK_ORDER_at (riskLevel (matched_result rule risk l trust)) = Some m \<and> n \<le> m"
  by (auto simp: matched_result_def RISK_ORDER_at_maxRisk split: option.split)

lemma riskLevel_unmatched: "riskLevel (unmatched_result risk l thr trust) = risk"
  by (simp add: unmatched_result_def Let_def)

text \<open>
  Where the base risk of the normalized tool name is a risk level, the risk of every
  result of Tier 1 is a level of at least that rank.
\<close>

lemma evaluateRules_risk_ge_level:
  assumes "evaluateRules h rawToolName toolParams globalRules agentRules threshold trust = Inr res"
    and "getBaseRisk (normalizeToolName h rawToolName) = Level b"
  shows "\<exists>m. RISK_ORDER_at (riskLevel res) = Some m \<and> RISK_ORDER b \<le> m"
proof -
  let ?tn = "normalizeToolName h rawToolName"
  from assms(1) obtain pe where pe: "checkParamEscalations ?tn toolParams = Inr pe"
    by (auto simp: evaluateRules_def Let_def split: sum.splits)
  define risk where
    "risk = (case pe of None \<Rightarrow> getBaseRisk ?tn
             | Some esc \<Rightarrow> maxRisk (getBaseRisk ?tn) (Level (fst esc)))"
  have "RISK_ORDER_at (getBaseRisk ?tn) = Some (RISK_ORDER b)"
    by (simp add: assms(2) RISK_ORDER_at_def)
  then obtain n where n: "RISK_ORDER_at risk = Some n" "RISK_ORDER b \<le> n"
    by (cases pe) (auto simp: risk_def RISK_ORDER_at_maxRisk)
  define lab where "lab = (case pe of None \<Rightarrow> None | Some esc \<Rightarrow> Some (snd esc))"
  from assms(1) pe
  have "res = unmatched_result risk lab threshold trust
        \<or> (\<exists>rule. res = matched_result rule risk lab trust)"
    by (auto simp: evaluateRules_def Let_def risk_def lab_def split: sum.splits option.splits)
  then show ?thesis
  proof
    assume "res = unmatched_result risk lab threshold trust"
    with n show ?thesis by (simp add: riskLevel_unmatched)
  next
    assume "\<exists>rule. res = matched_result rule risk lab trust"
    then obtain rule where r: "res = matched_result rule risk lab trust" ..
    from riskLevel_matched [OF n(1), of rule lab trust] obtain m
      where "RISK_ORDER_at (riskLevel (matched_result rule risk lab trust)) = Some m" "n \<le> m"
      by blast
    with r n(2) show ?thesis by auto
  qed
qed


section \<open>The threshold policy when no rule matched\<close>

text \<open>
  C4. When no rule matched and the trust level is owner, a call of risk low, medium or
  high is allowed, and its reason is the text \<open>owner bypass (risk below critical)\<close>,
  which begins with \<open>owner bypass\<close>; a call of risk critical is not allowed by the
  bypass: it escalates.
\<close>

theorem owner_bypass:
  assumes "evaluateRules h rawToolName toolParams globalRules agentRules threshold Owner = Inr res"
    and "firstMatch h (list_or_empty agentRules @ list_or_empty globalRules)
           (normalizeToolName h rawToolName) toolParams Owner = Inr None"
  shows "(riskLevel res \<in> {Level Low, Level Medium, Level High} \<longrightarrow>
            decision res = Allow \<and> reason res = Some ''owner bypass (risk below critical)''
            \<and> prefix ''owner bypass'' (the (reason res)))
       \<and> (riskLevel res = Level Critical \<longrightarrow> decision res = Escalate)"
  using assms
  by (auto simp: evaluateRules_def Let_def unmatched_result_def riskAtLeast_def js_ge_def
        RISK_ORDER_at_def adjustedThreshold_def
      split: sum.splits option.splits if_splits; cases threshold; simp)

theorem owner_bypass_witness:
  "evaluateRules example_host ''exec'' [(''command'', JString ''ls'')] None None Low Owner
     = Inr \<lparr>decision = Allow, riskLevel = Level High, trustLevel = Owner,
            reason = Some ''owner bypass (risk below critical)'', ruleLabel = None\<rparr>
   \<and> prefix ''owner bypass'' ''owner bypass (risk below critical)''
   \<and> evaluateRules example_host ''gateway'' [] None None Critical Owner
     = Inr \<lparr>decision = Escalate, riskLevel = Level Critical, trustLevel = Owner,
            reason = Some ''risk critical >= threshold critical'', ruleLabel = None\<rparr>"
proof -
  have e1: "evaluateRules example_host ''exec'' [(''command'', JString ''ls'')] None None Low Owner
     = Inr \<lparr>decision = Allow, riskLevel = Level High, trustLevel = Owner,
            reason = Some ''owner bypass (risk below critical)'', ruleLabel = None\<rparr>"
    by code_simp
  have f1: "firstMatch example_host (list_or_empty None @ list_or_empty None)
             (normalizeToolName example_host ''exec'') [(''command'', JString ''ls'')] Owner
             = Inr None"
    by code_simp
  have e2: "evaluateRules example_host ''gateway'' [] None None Critical Owner
     = Inr \<lparr>decision = Escalate, riskLevel = Level Critical, trustLevel = Owner,
            reason = Some ''risk critical >= threshold critical'', ruleLabel = None\<rparr>"
    by code_simp
  have f2: "firstMatch example_host (list_or_empty None @ list_or_empty None)
             (normalizeToolName example_host ''gateway'') [] Owner = Inr None"
    by code_simp
  from owner_bypass [OF e1 f1] owner_bypass [OF e2 f2] e1 e2 show ?thesis by simp
qed

text \<open>
  A risk that is no level reaches no threshold: for a subagent with the threshold
  \<open>low\<close> the tool \<open>constructor\<close> is allowed.
\<close>

lemma inherited_base_risk_subagent:
  "evaluateRules example_host ''constructor'' [] None None Low Subagent
     = Inr \<lparr>decision = Allow, riskLevel = NotALevel (JFunction ''Object''),
            trustLevel = Subagent,
            reason = Some ''risk function Object() { [native code] } < threshold low'',
            ruleLabel = None\<rparr>"
  by code_simp

lemma adjusted_rank: "RISK_ORDER (adjustedThreshold Subagent thr) = RISK_ORDER thr - 1"
  by (cases thr) (simp_all add: adjustedThreshold_def levels_def)

text \<open>
  C5. When no rule matched and the trust level is subagent, the threshold that the risk
  is compared with is the configured threshold one rank lower, and \<open>low\<close> stays
  \<open>low\<close>; the call escalates exactly when \<open>riskAtLeast\<close> holds of its risk and that
  threshold, which for a risk that is a level means that its rank reaches the rank of
  the threshold. With the threshold \<open>low\<close> a call of a subagent whose risk is a level,
  \<open>low\<close> included, escalates.
\<close>

theorem subagent_threshold:
  assumes "evaluateRules h rawToolName toolParams globalRules agentRules threshold Subagent = Inr res"
    and "firstMatch h (list_or_empty agentRules @ list_or_empty globalRules)
           (normalizeToolName h rawToolName) toolParams Subagent = Inr None"
  shows "RISK_ORDER (adjustedThreshold Subagent threshold) =
           (if RISK_ORDER threshold = 0 then 0 else RISK_ORDER threshold - 1)
       \<and> decision res =
           (if riskAtLeast (riskLevel res) (Level (adjustedThreshold Subagent threshold))
            then Escalate else Allow)
       \<and> (\<forall>l. riskLevel res = Level l \<longrightarrow>
             decision res =
               (if RISK_ORDER l \<ge> RISK_ORDER (adjustedThreshold Subagent threshold)
                then Escalate else Allow))
       \<and> (threshold = Low \<longrightarrow> adjustedThreshold Subagent threshold = Low
             \<and> (riskLevel res = Level Low \<longrightarrow> decision res = Escalate)
             \<and> (\<forall>l. riskLevel res = Level l \<longrightarrow> decision res = Escalate))"
proof -
  from assms have d: "decision res =
           (if riskAtLeast (riskLevel res) (Level (adjustedThreshold Subagent threshold))
            then Escalate else Allow)"
    by (auto simp: evaluateRules_def Let_def unmatched_result_def
        split: sum.splits option.splits if_splits)
  have r: "\<And>l t. riskAtLeast (Level l) (Level t) = (RISK_ORDER l \<ge> RISK_ORDER t)"
    by (simp add: riskAtLeast_def js_ge_def RISK_ORDER_at_def)
  have a: "threshold = Low \<Longrightarrow> adjustedThreshold Subagent threshold = Low"
    by (simp add: adjustedThreshold_def)
  from d r a show ?thesis
    by (auto simp: adjusted_rank)
qed

theorem subagent_threshold_witness:
  "evaluateRules example_host ''read'' [] None None Low Subagent
     = Inr \<lparr>decision = Escalate, riskLevel = Level Low, trustLevel = Subagent,
            reason = Some ''risk low >= threshold low'', ruleLabel = None\<rparr>
   \<and> adjustedThreshold Subagent Low = Low
   \<and> evaluateRules example_host ''write'' [(''path'', JString ''/tmp/output.txt'')] None None
        High Subagent
     = Inr \<lparr>decision = Escalate, riskLevel = Level Medium, trustLevel = Subagent,
            reason = Some ''risk medium >= threshold medium'', ruleLabel = None\<rparr>
   \<and> evaluateRules example_host ''read'' [] None None High Subagent
     = Inr \<lparr>decision = Allow, riskLevel = Level Low, trustLevel = Subagent,
            reason = Some ''risk low < threshold medium'', ruleLabel = None\<rparr>
   \<and> RISK_ORDER (adjustedThreshold Subagent High) = 1"
proof -
  have e: "evaluateRules example_host ''read'' [] None None Low Subagent
     = Inr \<lparr>decision = Escalate, riskLevel = Level Low, trustLevel = Subagent,
            reason = Some ''risk low >= threshold low'', ruleLabel = None\<rparr>"
    by code_simp
  have f: "firstMatch example_host (list_or_empty None @ list_or_empty None)
             (normalizeToolName example_host ''read'') [] Subagent = Inr None"
    by code_simp
  have e2: "evaluateRules example_host ''write'' [(''path'', JString ''/tmp/output.txt'')] None None
        High Subagent
     = Inr \<lparr>decision = Escalate, riskLevel = Level Medium, trustLevel = Subagent,
            reason = Some ''risk medium >= threshold medium'', ruleLabel = None\<rparr>"
    by code_simp
  have f2: "firstMatch example_host (list_or_empty None @ list_or_empty None)
             (normalizeToolName example_host ''write'') [(''path'', JString ''/tmp/output.txt'')]
             Subagent = Inr None"
    by code_simp
  have e3: "evaluateRules example_host ''read'' [] None None High Subagent
     = Inr \<lparr>decision = Allow, riskLevel = Level Low, trustLevel = Subagent,
            reason = Some ''risk low < threshold medium'', ruleLabel = None\<rparr>"
    by code_simp
  from subagent_threshold [OF e f] subagent_threshold [OF e2 f2] subagent_threshold [OF e3 f]
    e e2 e3
  show ?thesis by simp
qed

section \<open>Pending approvals\<close>

lemma dropWhile_id: "xs = [] \<or> \<not> P (hd xs) \<Longrightarrow> dropWhile P xs = xs"
  by (cases xs) auto

lemma last_dropWhile: "dropWhile P xs \<noteq> [] \<Longrightarrow> last (dropWhile P xs) = last xs"
  by (induction xs) (auto split: if_splits)

lemma trim_idem: "trim (trim s) = trim s"
proof -
  define t where "t = dropWhile is_js_space s"
  define y where "y = dropWhile is_js_space (rev t)"
  have ty: "trim s = rev y" by (simp add: trim_def t_def y_def)
  show ?thesis
  proof (cases "y = []")
    case True
    then have e: "trim s = []" by (simp add: ty)
    have "trim [] = []" by (simp add: trim_def)
    with e show ?thesis by simp
  next
    case False
    then have hy: "\<not> is_js_space (hd y)" unfolding y_def by (rule hd_dropWhile)
    from False have tn: "t \<noteq> []" by (auto simp: y_def)
    then have ht: "\<not> is_js_space (hd t)" unfolding t_def by (rule hd_dropWhile)
    from False have "last y = last (rev t)" unfolding y_def by (rule last_dropWhile)
    with tn have ly: "last y = hd t" by (simp add: last_rev)
    from False have "hd (rev y) = last y" by (simp add: hd_rev)
    with ly ht have "\<not> is_js_space (hd (rev y))" by simp
    then have 1: "dropWhile is_js_space (rev y) = rev y" by (simp add: dropWhile_id)
    from hy have 2: "dropWhile is_js_space y = y" by (simp add: dropWhile_id)
    have "trim (rev y) = rev y" by (simp add: trim_def 1 2)
    then show ?thesis by (simp add: ty)
  qed
qed

lemma settle_settled: "settle p v ps p \<noteq> None"
  by (simp add: settle_def split: option.split)

lemma pending_a_entry:
  "pending pending_a ''a'' = Some \<lparr>entry_record = 0, entry_promise = 1, entry_timer = 2\<rparr>"
  by (simp add: pending_a_def approval_request_def validateGuardianApprovalRequestParams_def
      example_request_def new_manager_def create_def waitForDecision_def getSnapshot_def
      resolved_id_def trim_def is_js_space_def js_space_chars_def Let_def)

lemma wf_new_manager: "wf_manager new_manager"
  by (simp add: wf_manager_def new_manager_def)

lemma getSnapshot_wf: "wf_manager m \<Longrightarrow> (getSnapshot i m = None) = (pending m i = None)"
  by (auto simp: wf_manager_def getSnapshot_def split: option.splits)

lemma create_record:
  "records (snd (create now uuid req t explicit m)) (fst (create now uuid req t explicit m))
     = Some \<lparr>ar_id = resolved_id explicit uuid, request = req, createdAtMs = now,
              expiresAtMs = now + t, resolvedAtMs = None, ar_decision = None, resolvedBy = None\<rparr>"
  by (simp add: create_def Let_def)

lemma wf_create: "wf_manager m \<Longrightarrow> wf_manager (snd (create now uuid req t explicit m))"
  by (fastforce simp: wf_manager_def create_def Let_def)

lemma wf_waitForDecision:
  "wf_manager m \<Longrightarrow> ref < next_ref m \<Longrightarrow> waitForDecision ref t m = Some (p, m') \<Longrightarrow> wf_manager m'"
  by (fastforce simp: wf_manager_def waitForDecision_def Let_def split: option.splits if_splits)

lemma wf_resolve: "wf_manager m \<Longrightarrow> wf_manager (snd (resolve now i d by m))"
  by (fastforce simp: wf_manager_def resolve_def Let_def split: option.splits if_splits)

lemma wf_timer_fires: "wf_manager m \<Longrightarrow> wf_manager (timer_fires t m)"
  by (fastforce simp: wf_manager_def timer_fires_def Let_def split: option.splits if_splits prod.splits)

lemma wf_approval_request: "wf_manager m \<Longrightarrow> wf_manager (snd (approval_request now uuid q m))"
  by (fastforce simp: wf_manager_def approval_request_def create_def waitForDecision_def Let_def
      split: option.splits if_splits prod.splits)

lemma wf_pending_a: "wf_manager pending_a"
  unfolding pending_a_def by (rule wf_approval_request [OF wf_new_manager])

lemma records_pending_a:
  "records pending_a 0
     = Some \<lparr>ar_id = ''a'',
              request = \<lparr>p_toolName = ''exec'', p_params = [(''command'', JString ''ls'')],
                         p_riskLevel = Some ''high'', p_trustLevel = None, p_reason = None,
                         p_agentId = None, p_sessionKey = None\<rparr>,
              createdAtMs = 1000, expiresAtMs = 1500, resolvedAtMs = None, ar_decision = None,
              resolvedBy = None\<rparr>"
  by (simp add: pending_a_def approval_request_def validateGuardianApprovalRequestParams_def
      example_request_def new_manager_def create_def waitForDecision_def getSnapshot_def
      resolved_id_def trim_def is_js_space_def js_space_chars_def Let_def)

text \<open>
  C6. For a pending id the first \<open>resolve\<close> succeeds: it removes the entry from the
  pending set, cancels the entry's timer (whose callback then does nothing), settles
  the promise and stamps the record with the time, the decision and who resolved it.
  Every later \<open>resolve\<close> with the same id returns \<open>false\<close> and leaves the state, the
  stamped decision included, as it is.
\<close>

theorem resolve_once:
  assumes "pending m recordId = Some e"
  shows "fst (resolve now recordId d by m)
       \<and> pending (snd (resolve now recordId d by m)) = (pending m)(recordId := None)
       \<and> timers (snd (resolve now recordId d by m)) (entry_timer e) = None
       \<and> timer_fires (entry_timer e) (snd (resolve now recordId d by m))
           = snd (resolve now recordId d by m)
       \<and> promises (snd (resolve now recordId d by m)) (entry_promise e) \<noteq> None
       \<and> (\<forall>r. records m (entry_record e) = Some r \<longrightarrow>
             records (snd (resolve now recordId d by m)) (entry_record e)
               = Some (r\<lparr>resolvedAtMs := Some now, ar_decision := Some d, resolvedBy := Some by\<rparr>))
       \<and> (\<forall>now' d' by'. resolve now' recordId d' by' (snd (resolve now recordId d by m))
               = (False, snd (resolve now recordId d by m)))"
  using assms
  by (auto simp: resolve_def timer_fires_def Let_def settle_settled split: option.splits)

theorem resolve_once_witness:
  "pending pending_a ''a'' = Some \<lparr>entry_record = 0, entry_promise = 1, entry_timer = 2\<rparr>
   \<and> fst (resolve 1200 ''a'' AllowOnce None pending_a)
   \<and> pending (snd (resolve 1200 ''a'' AllowOnce None pending_a)) ''a'' = None
   \<and> map_option ar_decision (records (snd (resolve 1200 ''a'' AllowOnce None pending_a)) 0)
       = Some (Some AllowOnce)
   \<and> resolve 1300 ''a'' DenyDecision (Some ''operator'')
        (snd (resolve 1200 ''a'' AllowOnce None pending_a))
       = (False, snd (resolve 1200 ''a'' AllowOnce None pending_a))"
  using resolve_once [OF pending_a_entry, of 1200 AllowOnce None] pending_a_entry
    records_pending_a
  by simp

text \<open>
  C10, as stated: \<open>create\<close> gives the trimmed explicit id only if that id is not
  already pending. It fails where the id \<open>a\<close> is pending: \<open>create\<close> does not look
  at the pending set and returns a record with the id \<open>a\<close>.
\<close>

theorem create_id_counterexample:
  "\<not> (ar_id (the (records (snd (create 2000 ''uuid-2'' example_payload 500 (Some ''a'') pending_a))
                     (fst (create 2000 ''uuid-2'' example_payload 500 (Some ''a'') pending_a))))
         = trim ''a''
       \<longrightarrow> trim ''a'' \<noteq> [] \<and> pending pending_a (trim ''a'') = None)"
proof -
  have t: "trim ''a'' = ''a''"
    by (simp add: trim_def is_js_space_def js_space_chars_def)
  show ?thesis
    by (simp add: create_record resolved_id_def t pending_a_entry)
qed

text \<open>
  C10, amended. \<open>create\<close> gives the trimmed explicit id whenever that id is not empty,
  pending or not, and otherwise the id that \<open>randomUUID\<close> generated. The guard against
  a pending id is in the gateway method: in a well-formed manager a valid request
  whose trimmed explicit id is pending is refused with \<open>approval id already pending\<close>
  and changes nothing; one whose id is not pending is created and registered under
  that id in the same step, all other pending entries staying as they are.
\<close>

theorem create_and_request_ids:
  "ar_id (the (records (snd (create now uuid req t explicit m))
                        (fst (create now uuid req t explicit m))))
     = (case explicit of
          None \<Rightarrow> uuid
        | Some i \<Rightarrow> if trim i \<noteq> [] then trim i else uuid)
   \<and> (wf_manager m \<and> validateGuardianApprovalRequestParams q \<and> q_id q = Some i \<and> trim i \<noteq> []
        \<longrightarrow> (if pending m (trim i) \<noteq> None
             then approval_request now uuid q m = (InvalidRequest ''approval id already pending'', m)
             else fst (approval_request now uuid q m) = Awaiting (next_ref m) (Suc (next_ref m))
                \<and> pending (snd (approval_request now uuid q m))
                    = (pending m)(trim i \<mapsto>
                        \<lparr>entry_record = next_ref m, entry_promise = Suc (next_ref m),
                         entry_timer = Suc (Suc (next_ref m))\<rparr>)
                \<and> map_option ar_id (records (snd (approval_request now uuid q m)) (next_ref m))
                    = Some (trim i)))"
proof -
  have a: "ar_id (the (records (snd (create now uuid req t explicit m))
                        (fst (create now uuid req t explicit m))))
     = (case explicit of
          None \<Rightarrow> uuid
        | Some i \<Rightarrow> if trim i \<noteq> [] then trim i else uuid)"
    by (auto simp: create_record resolved_id_def trim_def split: option.split)
  have b: "approval_request now uuid q m = (InvalidRequest ''approval id already pending'', m)"
    if "wf_manager m" "validateGuardianApprovalRequestParams q" "q_id q = Some i" "trim i \<noteq> []"
       "pending m (trim i) \<noteq> None"
    using that by (simp add: approval_request_def Let_def getSnapshot_wf)
  have c: "fst (approval_request now uuid q m) = Awaiting (next_ref m) (Suc (next_ref m))
                \<and> pending (snd (approval_request now uuid q m))
                    = (pending m)(trim i \<mapsto>
                        \<lparr>entry_record = next_ref m, entry_promise = Suc (next_ref m),
                         entry_timer = Suc (Suc (next_ref m))\<rparr>)
                \<and> map_option ar_id (records (snd (approval_request now uuid q m)) (next_ref m))
                    = Some (trim i)"
    if "wf_manager m" "validateGuardianApprovalRequestParams q" "q_id q = Some i" "trim i \<noteq> []"
       "pending m (trim i) = None"
    using that
    by (simp add: approval_request_def Let_def getSnapshot_wf create_def waitForDecision_def
        resolved_id_def trim_idem split: prod.splits)
  from a b c show ?thesis by auto
qed

theorem create_and_request_ids_witness:
  "wf_manager pending_a \<and> validateGuardianApprovalRequestParams example_request
   \<and> q_id example_request = Some '' a '' \<and> trim '' a '' = ''a'' \<and> pending pending_a ''a'' \<noteq> None
   \<and> approval_request 2000 ''uuid-2'' example_request pending_a
        = (InvalidRequest ''approval id already pending'', pending_a)
   \<and> ar_id (the (records (snd (create 2000 ''uuid-2'' example_payload 500 (Some ''  '') pending_a))
                     (fst (create 2000 ''uuid-2'' example_payload 500 (Some ''  '') pending_a))))
        = ''uuid-2''"
proof -
  have t: "trim '' a '' = ''a''"
    by (simp add: trim_def is_js_space_def js_space_chars_def)
  have t2: "trim ''  '' = []"
    by (simp add: trim_def is_js_space_def js_space_chars_def)
  have v: "validateGuardianApprovalRequestParams example_request"
    by (simp add: validateGuardianApprovalRequestParams_def example_request_def)
  have q: "q_id example_request = Some '' a ''"
    by (simp add: example_request_def)
  have p: "pending pending_a ''a'' \<noteq> None"
    by (simp add: pending_a_entry)
  from create_and_request_ids [of 2000 "''uuid-2''" example_payload 500 "Some ''  ''" pending_a
        example_request "'' a ''"]
    wf_pending_a t t2 v q p
  show ?thesis by simp
qed

section \<open>Classification and values that cannot be serialized\<close>

text \<open>
  On parameter values that \<open>JSON.stringify\<close> accepts, classification returns a
  result, and so does rule matching when the values are serialized to a text (or are
  \<open>undefined\<close>) and no rule names an inherited member as a parameter key.
\<close>

lemma inherited_member_text: "\<not> isl (JSON_stringify (inherited_member k))"
  by (simp add: inherited_member_def array_text_def object_text_def)

lemma param_text_serializable:
  assumes "\<forall>kv \<in> set ps. \<not> isl (JSON_stringify (snd kv))"
  shows "\<not> isl (param_text (get_param ps k))"
proof -
  have "\<not> isl (JSON_stringify (get_param ps k))"
  proof (cases "map_of ps k")
    case None
    then show ?thesis by (simp add: get_param_def inherited_member_text)
  next
    case (Some v)
    then have "(k, v) \<in> set ps" by (rule map_of_SomeD)
    with assms Some show ?thesis by (fastforce simp: get_param_def)
  qed
  then show ?thesis by (cases "get_param ps k") (auto simp: param_text_def)
qed

lemma scanEscalations_serializable:
  assumes "\<forall>kv \<in> set ps. \<not> isl (JSON_stringify (snd kv))"
  shows "\<not> isl (scanEscalations escs tn ps)"
proof (induction escs)
  case Nil
  show ?case by simp
next
  case (Cons esc rest)
  from param_text_serializable [OF assms, of "paramKey esc"]
  obtain s where "param_text (get_param ps (paramKey esc)) = Inr s"
    by (cases "param_text (get_param ps (paramKey esc))") auto
  with Cons show ?case by (simp add: Let_def)
qed

lemma checkParamEscalations_serializable:
  assumes "\<forall>kv \<in> set ps. \<not> isl (JSON_stringify (snd kv))"
  shows "\<not> isl (checkParamEscalations tn ps)"
  using scanEscalations_serializable [OF assms] by (simp add: checkParamEscalations_def)

lemma param_text_own:
  assumes "\<forall>kv \<in> set ps. snd kv = JUndefined \<or> (\<exists>s. JSON_stringify (snd kv) = Inr (Some s))"
    and "k \<notin> set Object_prototype_members"
    and "get_param ps k \<noteq> JUndefined"
  shows "\<exists>s. param_text (get_param ps k) = Inr (Some s)"
proof (cases "map_of ps k")
  case None
  with assms(2,3) show ?thesis
    by (auto simp: get_param_def inherited_member_def Object_prototype_members_def)
next
  case (Some v)
  then have "(k, v) \<in> set ps" by (rule map_of_SomeD)
  with assms(1) have "v = JUndefined \<or> (\<exists>s. JSON_stringify v = Inr (Some s))" by fastforce
  with assms(3) Some obtain s where "JSON_stringify v = Inr (Some s)"
    by (auto simp: get_param_def)
  with Some show ?thesis
    by (cases v) (auto simp: get_param_def param_text_def)
qed

lemma matchParams_serializable:
  assumes "\<forall>kv \<in> set ps. snd kv = JUndefined \<or> (\<exists>s. JSON_stringify (snd kv) = Inr (Some s))"
    and "\<forall>e \<in> set entries. fst e \<notin> set Object_prototype_members"
  shows "\<not> isl (matchParams h entries ps)"
  using assms(2)
proof (induction entries)
  case Nil
  show ?case by simp
next
  case (Cons entry rest)
  obtain key pat where e: "entry = (key, pat)" by (cases entry)
  with Cons.prems have k: "key \<notin> set Object_prototype_members" by simp
  from Cons have r: "\<not> isl (matchParams h rest ps)" by simp
  show ?case
  proof (cases "get_param ps key = JUndefined")
    case True
    with e show ?thesis by (simp add: Let_def)
  next
    case False
    from param_text_own [OF assms(1) k False] obtain s
      where "param_text (get_param ps key) = Inr (Some s)" ..
    with r e show ?thesis by (simp add: Let_def split: option.split)
  qed
qed

lemma circ1: "checkParamEscalations ''write'' circular_call = Inl TypeError"
  by code_simp
lemma circ2: "matchRule example_host path_rule ''write'' circular_call Allowed = Inl TypeError"
  by code_simp
lemma circ3: "evaluateRules example_host ''write'' circular_call (Some [example_rule]) None High Allowed = Inl TypeError"
  by code_simp
lemma circ4: "cacheKey example_host ''write'' circular_call = ''write:path=[object Object]''"
  by code_simp
lemma norm_write: "normalizeToolName example_host ''write'' = ''write''"
  by code_simp

lemma cfg:
  "enabled example_config = Some True" "rules example_config = Some [example_rule]"
  "agents example_config = None" "approvalThreshold example_config = Some High"
  "timeoutMs example_config = None"
  by (simp_all add: example_config_def)

lemma est:
  "taskAllowCache example_state = {}" "alwaysAllowCache example_state = {}"
  "budgetTracker example_state = Some (createBudgetTracker None Missing False)"
  by (simp_all add: example_state_def)

lemma nbs:
  "taskAllowCache no_budget_state = {}" "alwaysAllowCache no_budget_state = {}"
  "budgetTracker no_budget_state = None"
  by (simp_all add: no_budget_state_def)

text \<open>
  C2. The claim is that classification and rule matching never throw, also on a
  circular parameter value. In \<open>checkParamEscalations\<close> and \<open>matchRule\<close> the call of
  \<open>JSON.stringify\<close> is outside any \<open>try\<close>: for the tool \<open>write\<close> with a circular
  \<open>path\<close> both throw a TypeError, and so do \<open>evaluateRules\<close> and the handler, while
  \<open>cacheKey\<close>, which catches the exception and falls back to \<open>String\<close>, does not.
\<close>

theorem circular_parameter_throws:
  "checkParamEscalations ''write'' circular_call = Inl TypeError
   \<and> matchRule example_host path_rule ''write'' circular_call Allowed = Inl TypeError
   \<and> evaluateRules example_host ''write'' circular_call (Some [example_rule]) None High Allowed
       = Inl TypeError
   \<and> cacheKey example_host ''write'' circular_call = ''write:path=[object Object]''
   \<and> handler example_host example_clock (example_params None None) ''write'' circular_call
        None None no_budget_state
       = (Threw TypeError, no_budget_state)"
proof -
  have "handler example_host example_clock (example_params None None) ''write'' circular_call
        None None no_budget_state
       = (Threw TypeError, no_budget_state)"
    by (simp add: handler_def Let_def example_params_def cfg truthy_flag_def norm_write
        circ4 or_else_def nbs budget_gate_def truthy_string_def
        agent_config_def tiers_def resolveTrustLevel_def effectiveThreshold_def circ3)
  with circ1 circ2 circ3 circ4 show ?thesis by simp
qed

section \<open>Tier 2 fails safe\<close>

lemma scan_braces_None:
  assumes "\<forall>i j. parse_span h (slice cleaned i j) = None"
  shows "scan_braces h cleaned start i depth rest = None"
  using assms
  by (induction rest arbitrary: i depth) (auto simp: Let_def)

lemma extract_None:
  assumes "\<forall>i j. parse_span h (slice cleaned i j) = None"
  shows "extract_decision h cleaned = None"
  using assms by (simp add: extract_decision_def scan_braces_None split: option.split)

lemma slice_whole: "slice s 0 (length s) = s"
  by (simp add: slice_def)

lemma parseDecision_unparseable:
  assumes "\<forall>i j. parse_span h (slice (trim text) i j) = None"
  shows "parseDecision h text = could_not_parse"
proof -
  let ?c = "trim text"
  from assms have "parse_span h (slice ?c 0 (length ?c)) = None" by blast
  then have w: "parse_span h ?c = None" by (simp add: slice_whole)
  have e: "extract_decision h ?c = None" using assms by (rule extract_None)
  show ?thesis
    using w
    by (auto simp: parseDecision_def Let_def e or_fallback_def parse_span_def
        split: option.splits sum.splits jsvalue.splits)
qed

text \<open>
  C7. A timed-out call and a rejected call give the decision escalate with a reason
  that names the failure, and so does a response that cannot be parsed: one in which
  neither the trimmed text nor any slice of it parses to an object with a recognised
  decision. None of the three gives allow. \<open>evaluateWithLLM\<close> is a total function:
  every exception of the source is caught inside it and is a branch of the model.
\<close>

theorem evaluateWithLLM_fails_safe:
  "evaluateWithLLM h TimedOut
     = \<lparr>llm_decision = Escalate,
        llm_reason = JString ''LLM evaluation failed: Error: LLM evaluation timed out''\<rparr>
   \<and> evaluateWithLLM h (Rejected err)
     = \<lparr>llm_decision = Escalate, llm_reason = JString (''LLM evaluation failed: '' @ err)\<rparr>
   \<and> ((\<forall>i j. parse_span h (slice (trim text) i j) = None) \<longrightarrow>
        evaluateWithLLM h (Returned text)
          = \<lparr>llm_decision = Escalate, llm_reason = JString ''Could not parse LLM response''\<rparr>)
   \<and> llm_decision (evaluateWithLLM h TimedOut) \<noteq> Allow
   \<and> llm_decision (evaluateWithLLM h (Rejected err)) \<noteq> Allow"
  by (simp add: evaluateWithLLM_def parseDecision_unparseable could_not_parse_def)

lemma parse_span_example:
  "parse_span example_host s \<noteq> None \<Longrightarrow> s = fst (hd example_json_texts)"
  by (auto simp: parse_span_def example_host_def example_json_texts_def split: option.splits if_splits)


lemma length_slice: "length (slice s i j) \<le> length s"
  by (simp add: slice_def)

theorem evaluateWithLLM_fails_safe_witness:
  "(\<forall>i j. parse_span example_host (slice (trim ''I am not sure '') i j) = None)
   \<and> evaluateWithLLM example_host (Returned ''I am not sure '')
       = \<lparr>llm_decision = Escalate, llm_reason = JString ''Could not parse LLM response''\<rparr>"
proof -
  have t: "trim ''I am not sure '' = ''I am not sure''"
    by (simp add: trim_def is_js_space_def js_space_chars_def)
  have n: "\<forall>i j. parse_span example_host (slice (trim ''I am not sure '') i j) = None"
  proof (intro allI)
    fix i j
    show "parse_span example_host (slice (trim ''I am not sure '') i j) = None"
    proof (rule ccontr)
      assume "parse_span example_host (slice (trim ''I am not sure '') i j) \<noteq> None"
      then have "slice (trim ''I am not sure '') i j = fst (hd example_json_texts)"
        by (rule parse_span_example)
      then have "length (slice ''I am not sure'' i j) = 20"
        by (simp add: t example_json_texts_def)
      moreover have "length (slice ''I am not sure'' i j) \<le> 13"
        using length_slice [of "''I am not sure''" i j] by simp
      ultimately show False by simp
    qed
  qed
  from evaluateWithLLM_fails_safe [of example_host "[]" "''I am not sure ''"] n
  show ?thesis by simp
qed

section \<open>The hook: Tier 3, the budget and the caches\<close>

lemma norm_exec: "normalizeToolName example_host ''exec'' = ''exec''"
  by code_simp

lemma key_ls: "cacheKey example_host ''exec'' ls_call = ls_key"
  by code_simp

lemma rules_ls:
  "evaluateRules example_host ''exec'' ls_call (Some [example_rule]) None High Allowed
     = Inr \<lparr>decision = Escalate, riskLevel = Level High, trustLevel = Allowed,
            reason = Some ''escalate exec'', ruleLabel = Some ''escalate exec''\<rparr>"
  by code_simp

lemma budget_ok:
  "checkBudget example_host example_clock ''exec'' (budget example_config)
     (createBudgetTracker None Missing False) (Some ''agent-a'')
   = (\<lparr>exceeded = False, budget_action = None, budget_reason = None\<rparr>, checked_tracker)"
  by (simp add: checked_tracker_def checkBudget_def example_config_def truthy_flag_def resolveToolCost_def
      getSessionCost_def truthy_string_def createBudgetTracker_def getDailyCost_def loadDaily_def
      example_clock_def Let_def)

lemma handler_escalated:
  "handler example_host example_clock (example_params None (Some ask)) ''exec'' ls_call None None
     example_state
   = (case ask ls_request of
        Inl e \<Rightarrow> (Threw e, example_state\<lparr>budgetTracker := Some checked_tracker\<rparr>)
      | Inr d \<Rightarrow> resolveDecision d ls_key (example_state\<lparr>budgetTracker := Some checked_tracker\<rparr>))"
  by (simp add: handler_def Let_def example_params_def cfg truthy_flag_def norm_exec key_ls
      or_else_def est budget_gate_def effectiveBudget_def truthy_string_def
      agent_config_def budget_ok tiers_def resolveTrustLevel_def effectiveThreshold_def
      rules_ls tier3_def await_human_def ls_request_def trust_name_def
      human_timeout_def)

lemma handler_cache_hit:
  "ls_key \<in> alwaysAllowCache st \<Longrightarrow>
   handler example_host example_clock (example_params llm ask) ''exec'' ls_call None None st
   = (Proceed, recordCostIfEnabled example_clock (example_params llm ask) ''exec''
                 (Some ''agent-a'') st)"
  by (simp add: handler_def Let_def example_params_def cfg truthy_flag_def norm_exec key_ls
      or_else_def)

lemma record_on_checked:
  "recordToolCost example_clock ''exec'' (effectiveBudget example_config (Some ''agent-a''))
     (Some ''agent-a'') checked_tracker
   = checked_tracker
       \<lparr>sessionTotal := 1 / 100, sessionCosts := [''agent-a'' \<mapsto> 1 / 100],
        dailyCache := Some \<lparr>date = ''2026-01-15'', totalCost = 1 / 100,
                              perAgent = [''agent-a'' \<mapsto> 1 / 100]\<rparr>\<rparr>"
  by (simp add: recordToolCost_def recordCost_def resolveToolCost_def effectiveBudget_def
      truthy_string_def agent_config_def example_config_def checked_tracker_def
      createBudgetTracker_def loadDaily_def saveDaily_def example_clock_def Let_def)

lemma await_human_deny:
  assumes "requestHumanApproval ps = Some ask"
    and "ask req = Inr None \<or> ask req = Inr (Some DenyDecision)"
  shows "await_human ps req key st = Some (Block (JString ''Denied by operator''), st)"
  using assms by (auto simp: await_human_def resolveDecision_def)

lemma recordCostIfEnabled_cong:
  "config ps' = config ps \<Longrightarrow>
   recordCostIfEnabled clk ps' tn a st = recordCostIfEnabled clk ps tn a st"
  by (simp add: recordCostIfEnabled_def split: option.split)

lemma tier3_deny:
  assumes "requestHumanApproval ps = Some ask"
    and "\<forall>req. ask req = Inr None \<or> ask req = Inr (Some DenyDecision)"
  shows "tier3 ps tn tp aid rr key st = (Block (JString ''Denied by operator''), st)"
  using assms by (simp add: tier3_def await_human_deny)

text \<open>
  C8. A human decision of deny and a \<open>null\<close> result of the wait give the same result:
  a block with the reason \<open>Denied by operator\<close> and an unchanged state. This holds for
  \<open>resolveDecision\<close>, for Tier 3 after the rules, and for the handler as a whole, which
  cannot tell an approval function that always times out from one that always denies.
\<close>

theorem human_deny_and_timeout_alike:
  assumes n: "requestHumanApproval psN = Some (\<lambda>req. Inr None)"
    and d: "psD = psN\<lparr>requestHumanApproval := Some (\<lambda>req. Inr (Some DenyDecision))\<rparr>"
  shows "resolveDecision None key st = (Block (JString ''Denied by operator''), st)
       \<and> resolveDecision (Some DenyDecision) key st = (Block (JString ''Denied by operator''), st)
       \<and> tier3 psN tn tp aid rr key st = (Block (JString ''Denied by operator''), st)
       \<and> tier3 psD tn tp aid rr key st = (Block (JString ''Denied by operator''), st)
       \<and> handler h clk psN etn ep ca cs st = handler h clk psD etn ep ca cs st"
proof -
  have dq: "requestHumanApproval psD = Some (\<lambda>req. Inr (Some DenyDecision))"
    by (simp add: d)
  have t3N: "\<And>tn tp aid rr key st. tier3 psN tn tp aid rr key st = (Block (JString ''Denied by operator''), st)"
    by (rule tier3_deny [OF n]) simp
  have t3D: "\<And>tn tp aid rr key st. tier3 psD tn tp aid rr key st = (Block (JString ''Denied by operator''), st)"
    by (rule tier3_deny [OF dq]) simp
  have ahN: "\<And>req key st. await_human psN req key st = Some (Block (JString ''Denied by operator''), st)"
    by (rule await_human_deny [OF n]) simp
  have ahD: "\<And>req key st. await_human psD req key st = Some (Block (JString ''Denied by operator''), st)"
    by (rule await_human_deny [OF dq]) simp
  have rc: "\<And>tn a st. recordCostIfEnabled clk psD tn a st = recordCostIfEnabled clk psN tn a st"
    by (rule recordCostIfEnabled_cong) (simp add: d)
  have f: "config psD = config psN" "callLLM psD = callLLM psN"
    "hp_senderIsOwner psD = hp_senderIsOwner psN" "hp_isSubagent psD = hp_isSubagent psN"
    "hp_isAllowed psD = hp_isAllowed psN" "hp_agentId psD = hp_agentId psN"
    "hp_sessionKey psD = hp_sessionKey psN"
    by (simp_all add: d)
  have ti: "\<And>tn tp aid cs key st.
      tiers h clk psD tn tp aid cs key st = tiers h clk psN tn tp aid cs key st"
    by (simp add: tiers_def Let_def t3N t3D rc f split: sum.split option.split)
  have bg: "\<And>tn tp aid cs key st.
      budget_gate h clk psD tn tp aid cs key st = budget_gate h clk psN tn tp aid cs key st"
    by (simp add: budget_gate_def Let_def ahN ahD f split: option.split prod.split)
  have "handler h clk psD etn ep ca cs st = handler h clk psN etn ep ca cs st"
    by (simp add: handler_def Let_def ti bg rc f split: sum.split)
  with t3N t3D show ?thesis by (simp add: resolveDecision_def)
qed

theorem human_deny_and_timeout_alike_witness:
  "requestHumanApproval (example_params None (Some (\<lambda>req. Inr None))) = Some (\<lambda>req. Inr None)
   \<and> handler example_host example_clock (example_params None (Some (\<lambda>req. Inr None)))
        ''exec'' ls_call None None example_state
       = (Block (JString ''Denied by operator''),
          example_state\<lparr>budgetTracker := Some checked_tracker\<rparr>)
   \<and> handler example_host example_clock
        (example_params None (Some (\<lambda>req. Inr (Some DenyDecision))))
        ''exec'' ls_call None None example_state
       = (Block (JString ''Denied by operator''),
          example_state\<lparr>budgetTracker := Some checked_tracker\<rparr>)"
proof -
  have n: "requestHumanApproval (example_params None (Some (\<lambda>req. Inr None)))
             = Some (\<lambda>req. Inr None)"
    by (simp add: example_params_def)
  have d: "example_params None (Some (\<lambda>req. Inr (Some DenyDecision)))
             = (example_params None (Some (\<lambda>req. Inr None)))
                 \<lparr>requestHumanApproval := Some (\<lambda>req. Inr (Some DenyDecision))\<rparr>"
    by (simp add: example_params_def)
  have e: "handler example_host example_clock (example_params None (Some (\<lambda>req. Inr None)))
             ''exec'' ls_call None None example_state
           = (Block (JString ''Denied by operator''),
              example_state\<lparr>budgetTracker := Some checked_tracker\<rparr>)"
    by (simp add: handler_escalated resolveDecision_def)
  from human_deny_and_timeout_alike [OF n d, of ls_key example_state "''exec''" ls_call None
         "\<lparr>decision = Escalate, riskLevel = Level High, trustLevel = Allowed, reason = None,
           ruleLabel = None\<rparr>" example_host example_clock "''exec''" ls_call None None] n e
  show ?thesis by simp
qed

text \<open>A blocked call leaves the session totals and the ledger file as they were.\<close>

lemma loadDaily_ledger:
  "sessionTotal (snd (loadDaily clk t)) = sessionTotal t
   \<and> sessionCosts (snd (loadDaily clk t)) = sessionCosts t
   \<and> disk (snd (loadDaily clk t)) = disk t"
  by (simp add: loadDaily_def Let_def split: option.split)

lemma getDailyCost_ledger:
  assumes "getDailyCost clk a t = (c, t1)"
  shows "sessionTotal t1 = sessionTotal t \<and> sessionCosts t1 = sessionCosts t \<and> disk t1 = disk t"
proof -
  obtain d t2 where l: "loadDaily clk t = (d, t2)" by (cases "loadDaily clk t")
  with assms have "t1 = t2"
    by (auto simp: getDailyCost_def Let_def split: if_splits option.splits)
  with l loadDaily_ledger [of clk t] show ?thesis by simp
qed

lemma checkBudget_ledger:
  assumes "checkBudget h clk tn bc t a = (res, t1)"
  shows "sessionTotal t1 = sessionTotal t \<and> sessionCosts t1 = sessionCosts t \<and> disk t1 = disk t"
proof (cases "t1 = t")
  case True
  then show ?thesis by simp
next
  case False
  with assms obtain c where "getDailyCost clk a t = (c, t1)"
    by (auto simp: checkBudget_def Let_def split: option.splits if_splits prod.splits)
  then show ?thesis by (rule getDailyCost_ledger)
qed

lemma resolveDecision_tracker: "budgetTracker (snd (resolveDecision d key st)) = budgetTracker st"
  by (simp add: resolveDecision_def Let_def)

lemma await_human_ledger:
  "await_human ps req key st = Some (r, st') \<Longrightarrow> budgetTracker st' = budgetTracker st"
  by (auto simp: await_human_def resolveDecision_def Let_def split: option.splits sum.splits if_splits)

lemma tier3_ledger: "budgetTracker (snd (tier3 ps tn tp aid rr key st)) = budgetTracker st"
  by (simp add: tier3_def await_human_def resolveDecision_def Let_def split: option.split sum.split)

lemma tiers_block:
  assumes "tiers h clk ps tn tp aid cs key st = (Block r, st')"
  shows "budgetTracker st' = budgetTracker st"
  using assms tier3_ledger [of ps tn tp aid _ key st]
  by (auto simp: tiers_def Let_def split: sum.splits option.splits if_splits)
     (metis snd_conv)+

lemma budget_gate_ledger:
  assumes "budget_gate h clk ps tn tp aid cs key st = Inl (r, st')
           \<or> budget_gate h clk ps tn tp aid cs key st = Inr st'"
  shows "session_ledger st' = session_ledger st"
proof (cases "budgetTracker st")
  case None
  with assms show ?thesis by (auto simp: budget_gate_def)
next
  case (Some t)
  obtain res t1 where c: "checkBudget h clk tn (effectiveBudget (config ps) aid) t aid = (res, t1)"
    by (cases "checkBudget h clk tn (effectiveBudget (config ps) aid) t aid")
  from checkBudget_ledger [OF c]
  have l: "session_ledger (st\<lparr>budgetTracker := Some t1\<rparr>) = session_ledger st"
    by (simp add: session_ledger_def Some)
  from assms Some c have "budgetTracker st' = Some t1"
    by (auto simp: budget_gate_def Let_def split: if_splits option.splits
        dest!: await_human_ledger)
  with l show ?thesis by (simp add: session_ledger_def)
qed

lemma handler_block_records_nothing:
  assumes "handler h clk ps etn ep ca cs st = (Block r, st')"
  shows "session_ledger st' = session_ledger st"
proof -
  let ?tn = "normalizeToolName h etn"
  let ?aid = "or_else ca (hp_agentId ps)"
  let ?key = "cacheKey h ?tn ep"
  from assms have e: "truthy_flag (enabled (config ps))"
    and m: "?key \<notin> alwaysAllowCache st" "?key \<notin> taskAllowCache st"
    by (auto simp: handler_def Let_def split: if_splits)
  show ?thesis
  proof (cases "budget_gate h clk ps ?tn ep ?aid cs ?key st")
    case (Inl p)
    with assms e m have "p = (Block r, st')"
      by (simp add: handler_def Let_def)
    with Inl show ?thesis by (auto intro: budget_gate_ledger)
  next
    case (Inr st1)
    with assms e m have "tiers h clk ps ?tn ep ?aid cs ?key st1 = (Block r, st')"
      by (simp add: handler_def Let_def)
    then have "budgetTracker st' = budgetTracker st1" by (rule tiers_block)
    moreover from Inr have "session_ledger st1 = session_ledger st"
      by (auto intro: budget_gate_ledger)
    ultimately show ?thesis by (simp add: session_ledger_def)
  qed
qed

text \<open>
  C1. The claim is that the cost is recorded exactly when the call proceeds, at any
  tier. A call that a human allows at Tier 3 proceeds with nothing recorded:
  \<open>resolveDecision\<close> returns without the call of \<open>recordToolCost\<close> that the paths of a
  Tier-1 allow, a Tier-2 allow and a cache hit make. An \<open>exec\<close> call escalated to the
  human and allowed with \<open>allow-always\<close> leaves the session and daily totals, global
  and per agent, at 0 although the call costs 0.01; the identical next call hits
  the cache and is recorded.
\<close>

theorem tier3_allow_records_no_cost:
  "handler example_host example_clock (example_params None (Some (\<lambda>req. Inr (Some AllowAlways))))
     ''exec'' ls_call None None example_state
   = (Proceed, example_state\<lparr>alwaysAllowCache := {ls_key}, budgetTracker := Some checked_tracker\<rparr>)
   \<and> resolveToolCost ''exec'' (effectiveBudget example_config (Some ''agent-a'')) = 1 / 100
   \<and> getSessionCost None checked_tracker = 0
   \<and> getSessionCost (Some ''agent-a'') checked_tracker = 0
   \<and> fst (getDailyCost example_clock None checked_tracker) = 0
   \<and> fst (getDailyCost example_clock (Some ''agent-a'') checked_tracker) = 0
   \<and> handler example_host example_clock (example_params None (Some (\<lambda>req. Inr (Some AllowAlways))))
       ''exec'' ls_call None None
       (example_state\<lparr>alwaysAllowCache := {ls_key}, budgetTracker := Some checked_tracker\<rparr>)
     = (Proceed, example_state\<lparr>alwaysAllowCache := {ls_key},
          budgetTracker := Some (checked_tracker
            \<lparr>sessionTotal := 1 / 100, sessionCosts := [''agent-a'' \<mapsto> 1 / 100],
             dailyCache := Some \<lparr>date = ''2026-01-15'', totalCost = 1 / 100,
                                   perAgent = [''agent-a'' \<mapsto> 1 / 100]\<rparr>\<rparr>)\<rparr>)"
proof -
  have a: "handler example_host example_clock
             (example_params None (Some (\<lambda>req. Inr (Some AllowAlways))))
             ''exec'' ls_call None None example_state
           = (Proceed, example_state\<lparr>alwaysAllowCache := {ls_key},
                         budgetTracker := Some checked_tracker\<rparr>)"
    by (simp add: handler_escalated resolveDecision_def est)
  have b: "resolveToolCost ''exec'' (effectiveBudget example_config (Some ''agent-a'')) = 1 / 100"
    by (simp add: resolveToolCost_def effectiveBudget_def truthy_string_def agent_config_def
        example_config_def)
  have c: "getSessionCost None checked_tracker = 0"
       "getSessionCost (Some ''agent-a'') checked_tracker = 0"
       "fst (getDailyCost example_clock None checked_tracker) = 0"
       "fst (getDailyCost example_clock (Some ''agent-a'') checked_tracker) = 0"
    by (simp_all add: getSessionCost_def getDailyCost_def loadDaily_def truthy_string_def
        checked_tracker_def createBudgetTracker_def example_clock_def)
  have d: "handler example_host example_clock
             (example_params None (Some (\<lambda>req. Inr (Some AllowAlways))))
             ''exec'' ls_call None None
             (example_state\<lparr>alwaysAllowCache := {ls_key}, budgetTracker := Some checked_tracker\<rparr>)
     = (Proceed, example_state\<lparr>alwaysAllowCache := {ls_key},
          budgetTracker := Some (checked_tracker
            \<lparr>sessionTotal := 1 / 100, sessionCosts := [''agent-a'' \<mapsto> 1 / 100],
             dailyCache := Some \<lparr>date = ''2026-01-15'', totalCost = 1 / 100,
                                   perAgent = [''agent-a'' \<mapsto> 1 / 100]\<rparr>\<rparr>)\<rparr>)"
    by (simp add: handler_cache_hit recordCostIfEnabled_def record_on_checked)
      (simp add: example_params_def record_on_checked)
  from a b c d show ?thesis by simp
qed

lemma key_colliding:
  "cacheKey example_host ''exec'' colliding_1 = ''exec:a=1&b=2''"
  "cacheKey example_host ''exec'' colliding_2 = ''exec:a=1&b=2''"
  by code_simp+

lemma rules_colliding:
  "evaluateRules example_host ''exec'' colliding_1 (Some [example_rule]) None High Allowed
     = Inr \<lparr>decision = Escalate, riskLevel = Level High, trustLevel = Allowed,
            reason = Some ''escalate exec'', ruleLabel = Some ''escalate exec''\<rparr>"
  "evaluateRules example_host ''exec'' colliding_2 (Some [example_rule]) None High Allowed
     = Inr \<lparr>decision = Escalate, riskLevel = Level High, trustLevel = Allowed,
            reason = Some ''escalate exec'', ruleLabel = Some ''escalate exec''\<rparr>"
  by code_simp+

lemma approve_first_1: "req_toolParams req = colliding_1 \<Longrightarrow> approve_first req = Inr (Some AllowAlways)"
  by (simp add: approve_first_def)

lemma approve_first_2: "req_toolParams req = colliding_2 \<Longrightarrow> approve_first req = Inr (Some DenyDecision)"
  by (simp add: approve_first_def colliding_1_def colliding_2_def)

text \<open>
  C9. The claim is that caching an allow for one parameter map never changes the
  outcome for a different one. \<open>cacheKey\<close> joins \<open>key=value\<close> entries with \<open>&\<close>
  and escapes neither character in a key: the maps \<open>{"a=1&b": 2}\<close> and \<open>{a: 1, b: 2}\<close>
  are different and have the same key. With an operator who allows the first call for
  ever and denies everything else, the second call is blocked on a fresh hook and
  proceeds, without the operator being asked, once the first is cached.
\<close>

theorem cache_key_collision:
  "colliding_1 \<noteq> colliding_2
   \<and> cacheKey example_host ''exec'' colliding_1 = cacheKey example_host ''exec'' colliding_2
   \<and> handler example_host example_clock (example_params None (Some approve_first))
        ''exec'' colliding_2 None None no_budget_state
       = (Block (JString ''Denied by operator''), no_budget_state)
   \<and> handler example_host example_clock (example_params None (Some approve_first))
        ''exec'' colliding_1 None None no_budget_state
       = (Proceed, no_budget_state\<lparr>alwaysAllowCache := {''exec:a=1&b=2''}\<rparr>)
   \<and> handler example_host example_clock (example_params None (Some approve_first))
        ''exec'' colliding_2 None None (no_budget_state\<lparr>alwaysAllowCache := {''exec:a=1&b=2''}\<rparr>)
       = (Proceed, no_budget_state\<lparr>alwaysAllowCache := {''exec:a=1&b=2''}\<rparr>)"
proof -
  have a: "colliding_1 \<noteq> colliding_2"
    by (simp add: colliding_1_def colliding_2_def)
  have b: "handler example_host example_clock (example_params None (Some approve_first))
        ''exec'' colliding_2 None None no_budget_state
       = (Block (JString ''Denied by operator''), no_budget_state)"
    by (simp add: handler_def Let_def example_params_def cfg truthy_flag_def norm_exec
        key_colliding or_else_def nbs budget_gate_def truthy_string_def
        agent_config_def tiers_def resolveTrustLevel_def effectiveThreshold_def
        rules_colliding tier3_def await_human_def approve_first_2 resolveDecision_def)
  have c: "handler example_host example_clock (example_params None (Some approve_first))
        ''exec'' colliding_1 None None no_budget_state
       = (Proceed, no_budget_state\<lparr>alwaysAllowCache := {''exec:a=1&b=2''}\<rparr>)"
    by (simp add: handler_def Let_def example_params_def cfg truthy_flag_def norm_exec
        key_colliding or_else_def nbs budget_gate_def truthy_string_def
        agent_config_def tiers_def resolveTrustLevel_def effectiveThreshold_def
        rules_colliding tier3_def await_human_def approve_first_1 resolveDecision_def)
  have d: "handler example_host example_clock (example_params None (Some approve_first))
        ''exec'' colliding_2 None None (no_budget_state\<lparr>alwaysAllowCache := {''exec:a=1&b=2''}\<rparr>)
       = (Proceed, no_budget_state\<lparr>alwaysAllowCache := {''exec:a=1&b=2''}\<rparr>)"
    by (simp add: handler_def Let_def example_params_def cfg truthy_flag_def norm_exec
        key_colliding or_else_def recordCostIfEnabled_def nbs)
  from a b c d show ?thesis by (simp add: key_colliding)
qed

end
